theory Spec2Isabelle
  imports Main "HOL-Library.Word"
begin

unbundle bit_operations_syntax

section \<open>Python values\<close>

text \<open>
  A Python \<open>str\<close> is a sequence of Unicode code points, a \<open>bytes\<close> value a sequence of
  octets. Code points are natural numbers; \<open>str_of\<close> writes a literal.
\<close>

type_synonym str = "nat list"
type_synonym byte = "8 word"
type_synonym u32 = "32 word"

definition str_of :: "string \<Rightarrow> str" where
  "str_of s = map of_char s"

text \<open>
  Every exception the modelled code raises or translates. \<open>AssertionError\<close>,
  \<open>Exception\<close> and \<open>ValueError\<close> carry their message, \<open>KeyError\<close> the labels that were
  not found,
  \<open>TooManyFailuresError\<close> the number of identifiers minted before giving up. The HTTP
  errors \<open>NotFound\<close> and \<open>ServiceUnavailable\<close> carry the error whose \<open>str()\<close> is their
  description.
\<close>

datatype error =
    AssertionError string
  | Exception string
  | KeyError "str list"
  | ValueError string
  | UnicodeEncodeError
  | IdentifierSetNotFoundError str
  | TooManyFailuresError nat
  | InsufficientPrivilege
  | NotFound error
  | ServiceUnavailable error
  | Forbidden

section \<open>\<open>str.encode("utf-8")\<close>\<close>

text \<open>
  One code point becomes one to four octets. A surrogate (\<open>0xD800\<close> to \<open>0xDFFF\<close>) has no
  UTF-8 form: Python raises \<open>UnicodeEncodeError\<close>. Nothing above \<open>0x10FFFF\<close> occurs in a
  \<open>str\<close>.
\<close>

definition utf8_code_point :: "nat \<Rightarrow> byte list option" where
  "utf8_code_point c =
     (if c < 0x80 then Some [of_nat c]
      else if c < 0x800 then Some [of_nat (0xC0 + c div 64), of_nat (0x80 + c mod 64)]
      else if 0xD800 \<le> c \<and> c \<le> 0xDFFF then None
      else if c < 0x10000 then
        Some [of_nat (0xE0 + c div 4096), of_nat (0x80 + c div 64 mod 64), of_nat (0x80 + c mod 64)]
      else if c < 0x110000 then
        Some [of_nat (0xF0 + c div 262144), of_nat (0x80 + c div 4096 mod 64),
              of_nat (0x80 + c div 64 mod 64), of_nat (0x80 + c mod 64)]
      else None)"

fun encode_utf8 :: "str \<Rightarrow> error + byte list" where
  "encode_utf8 [] = Inr []"
| "encode_utf8 (c # cs) =
     (case utf8_code_point c of
        None \<Rightarrow> Inl UnicodeEncodeError
      | Some bs \<Rightarrow> (case encode_utf8 cs of Inl e \<Rightarrow> Inl e | Inr rest \<Rightarrow> Inr (bs @ rest)))"

section \<open>SHA-256 (FIPS 180-4), as \<open>hashlib.sha256\<close> computes it\<close>

text \<open>
  \<open>hashlib\<close> is a library, not code of the repository: its digest is modelled by the
  standard it implements. Words are 32 bits wide and addition wraps. First the six
  logical functions of section 4.1.2.
\<close>

definition rotr :: "nat \<Rightarrow> u32 \<Rightarrow> u32" where
  "rotr n x = (drop_bit n x) OR (push_bit (32 - n) x)"

definition Ch :: "u32 \<Rightarrow> u32 \<Rightarrow> u32 \<Rightarrow> u32" where
  "Ch x y z = (x AND y) XOR (NOT x AND z)"

definition Maj :: "u32 \<Rightarrow> u32 \<Rightarrow> u32 \<Rightarrow> u32" where
  "Maj x y z = (x AND y) XOR (x AND z) XOR (y AND z)"

definition bsig0 :: "u32 \<Rightarrow> u32" where
  "bsig0 x = rotr 2 x XOR rotr 13 x XOR rotr 22 x"

definition bsig1 :: "u32 \<Rightarrow> u32" where
  "bsig1 x = rotr 6 x XOR rotr 11 x XOR rotr 25 x"

definition ssig0 :: "u32 \<Rightarrow> u32" where
  "ssig0 x = rotr 7 x XOR rotr 18 x XOR drop_bit 3 x"

definition ssig1 :: "u32 \<Rightarrow> u32" where
  "ssig1 x = rotr 17 x XOR rotr 19 x XOR drop_bit 10 x"

text \<open>The round constants, eight to a row.\<close>

definition K256 :: "u32 list" where
  "K256 = concat
    [[0x428a2f98, 0x71374491, 0xb5c0fbcf, 0xe9b5dba5, 0x3956c25b, 0x59f111f1, 0x923f82a4, 0xab1c5ed5],
     [0xd807aa98, 0x12835b01, 0x243185be, 0x550c7dc3, 0x72be5d74, 0x80deb1fe, 0x9bdc06a7, 0xc19bf174],
     [0xe49b69c1, 0xefbe4786, 0x0fc19dc6, 0x240ca1cc, 0x2de92c6f, 0x4a7484aa, 0x5cb0a9dc, 0x76f988da],
     [0x983e5152, 0xa831c66d, 0xb00327c8, 0xbf597fc7, 0xc6e00bf3, 0xd5a79147, 0x06ca6351, 0x14292967],
     [0x27b70a85, 0x2e1b2138, 0x4d2c6dfc, 0x53380d13, 0x650a7354, 0x766a0abb, 0x81c2c92e, 0x92722c85],
     [0xa2bfe8a1, 0xa81a664b, 0xc24b8b70, 0xc76c51a3, 0xd192e819, 0xd6990624, 0xf40e3585, 0x106aa070],
     [0x19a4c116, 0x1e376c08, 0x2748774c, 0x34b0bcb5, 0x391c0cb3, 0x4ed8aa4a, 0x5b9cca4f, 0x682e6ff3],
     [0x748f82ee, 0x78a5636f, 0x84c87814, 0x8cc70208, 0x90befffa, 0xa4506ceb, 0xbef9a3f7, 0xc67178f2]]"

text \<open>The initial hash value.\<close>

definition H256 :: "u32 list" where
  "H256 = [0x6a09e667, 0xbb67ae85, 0x3c6ef372, 0xa54ff53a,
           0x510e527f, 0x9b05688c, 0x1f83d9ab, 0x5be0cd19]"

text \<open>
  \<open>be_bytes k v\<close> is \<open>v\<close> in \<open>k\<close> octets, the most significant first. Padding appends the
  octet \<open>0x80\<close>, zero octets up to 56 modulo 64, and the length of the message in bits in
  eight octets.
\<close>

fun be_bytes :: "nat \<Rightarrow> nat \<Rightarrow> byte list" where
  "be_bytes 0 v = []"
| "be_bytes (Suc k) v = be_bytes k (v div 256) @ [of_nat (v mod 256)]"

definition pad :: "byte list \<Rightarrow> byte list" where
  "pad m = m @ [0x80] @ replicate ((119 - length m mod 64) mod 64) 0
             @ be_bytes 8 (8 * length m)"

text \<open>The padded message is cut into blocks of sixteen big-endian words.\<close>

fun be_word :: "byte list \<Rightarrow> u32" where
  "be_word bs = foldl (\<lambda>acc b. push_bit 8 acc OR ucast b) 0 bs"

fun chunks :: "nat \<Rightarrow> nat \<Rightarrow> 'a list \<Rightarrow> 'a list list" where
  "chunks 0 k xs = []"
| "chunks (Suc n) k xs = take k xs # chunks n k (drop k xs)"

definition blocks :: "byte list \<Rightarrow> u32 list list" where
  "blocks bs = map (\<lambda>blk. map be_word (chunks 16 4 blk)) (chunks (length bs div 64) 64 bs)"

text \<open>
  The message schedule extends the sixteen words of a block to sixty-four; a round
  updates the eight working variables; a block is compressed by sixty-four rounds and
  added to the hash value it started from.
\<close>

fun schedule :: "nat \<Rightarrow> u32 list \<Rightarrow> u32 list" where
  "schedule 0 w = w"
| "schedule (Suc k) w =
     schedule k (w @ [ssig1 (w ! (length w - 2)) + w ! (length w - 7)
                      + ssig0 (w ! (length w - 15)) + w ! (length w - 16)])"

fun round256 :: "u32 list \<Rightarrow> u32 \<times> u32 \<Rightarrow> u32 list" where
  "round256 [a, b, c, d, e, f, g, h] (k, w) =
     (let t1 = h + bsig1 e + Ch e f g + k + w;
          t2 = bsig0 a + Maj a b c
      in [t1 + t2, a, b, c, d + t1, e, f, g])"
| "round256 s _ = s"

definition compress :: "u32 list \<Rightarrow> u32 list \<Rightarrow> u32 list" where
  "compress hs blk = map2 (+) hs (foldl round256 hs (zip K256 (schedule 48 blk)))"

text \<open>The digest: the final hash value, thirty-two octets.\<close>

definition sha256 :: "byte list \<Rightarrow> byte list" where
  "sha256 m = concat (map (\<lambda>w. be_bytes 4 (unat w)) (foldl compress H256 (blocks (pad m))))"


subsection \<open>The hash object\<close>

text \<open>
  \<open>hashlib.sha256()\<close> creates an object, \<open>update\<close> feeds it octets and \<open>hexdigest\<close>
  reads the digest of everything fed so far, as lowercase hexadecimal. The object is
  modelled by the octets it has been fed.
\<close>

type_synonym hash_object = "byte list"

definition hashlib_sha256 :: hash_object where
  "hashlib_sha256 = []"

definition update :: "hash_object \<Rightarrow> byte list \<Rightarrow> hash_object" where
  "update h data = h @ data"

definition hexdigit :: "nat \<Rightarrow> char" where
  "hexdigit n = ''0123456789abcdef'' ! n"

definition hex :: "byte list \<Rightarrow> string" where
  "hex bs = concat (map (\<lambda>b. [hexdigit (unat b div 16), hexdigit (unat b mod 16)]) bs)"

definition hexdigest :: "hash_object \<Rightarrow> str" where
  "hexdigest h = str_of (hex (sha256 h))"

section \<open>\<open>generate_hash\<close> (de_identify.py)\<close>

text \<open>
  \<open>environ\<close> is the process environment. A \<open>secret\<close> left out is looked up there, and
  its absence raises a plain \<open>Exception\<close>; the two assertions come next, in the source's
  order, before anything is encoded or hashed.
\<close>

definition ID3C_DEIDENTIFY_SECRET :: str where
  "ID3C_DEIDENTIFY_SECRET = str_of ''ID3C_DEIDENTIFY_SECRET''"

definition generate_hash :: "(str \<rightharpoonup> str) \<Rightarrow> str \<Rightarrow> str option \<Rightarrow> error + str" where
  "generate_hash environ identifier secret =
     (case (case secret of
              Some s \<Rightarrow> Inr s
            | None \<Rightarrow>
                (case environ ID3C_DEIDENTIFY_SECRET of
                   Some s \<Rightarrow> Inr s
                 | None \<Rightarrow> Inl (Exception
                     ''The environment variable ID3C_DEIDENTIFY_SECRET is required.''))) of
        Inl e \<Rightarrow> Inl e
      | Inr secret' \<Rightarrow>
          if \<not> length identifier > 0 then Inl (AssertionError ''Empty *identifier* provided!'')
          else if \<not> length secret' > 0 then Inl (AssertionError ''Empty *secret* provided!'')
          else
            (case encode_utf8 identifier of
               Inl e \<Rightarrow> Inl e
             | Inr identifier_bytes \<Rightarrow>
                 (case encode_utf8 secret' of
                    Inl e \<Rightarrow> Inl e
                  | Inr secret_bytes \<Rightarrow>
                      Inr (hexdigest (update (update hashlib_sha256 identifier_bytes)
                                             secret_bytes)))))"

text \<open>The environment of a process in which no variable is set.\<close>

definition empty_environ :: "str \<rightharpoonup> str" where
  "empty_environ variable = None"

section \<open>The \<open>de-identify\<close> command (de_identify.py)\<close>

text \<open>
  A \<open>pandas.DataFrame\<close> is a list of column labels and a list of rows, each row holding one
  cell per column. The loaders read every cell as a string (\<open>dtype="string"\<close>,
  \<open>na_filter=False\<close>), so an input frame is a \<open>str dataframe\<close>; the frame written out has
  the \<open>hash\<close> column, whose cells may be \<open>None\<close>, so it is a \<open>str option dataframe\<close>.
\<close>

record 'a dataframe =
  df_columns :: "str list"
  df_rows :: "'a list list"

text \<open>A line of the log: \<open>LOG.error(f"{error}. Input columns: {list(input_df.columns)}")\<close>.\<close>

datatype log_record = LogError error "str list"

text \<open>
  \<open>df[list(columns)]\<close>: the requested labels, in the requested order. Labels that the
  frame lacks raise a \<open>KeyError\<close>: when the frame has none of the requested labels it
  names them all as they were requested, otherwise it names each missing label once, in
  the order of first request (\<open>unique\<close>). A label the frame has more than once selects
  each of its columns.
\<close>

definition unique :: "'a list \<Rightarrow> 'a list" where
  "unique xs = rev (remdups (rev xs))"

definition select_cells :: "str list \<Rightarrow> str list \<Rightarrow> 'a list \<Rightarrow> 'a list" where
  "select_cells labels cols r =
     concat (map (\<lambda>c. map snd (filter (\<lambda>kv. fst kv = c) (zip labels r))) cols)"

definition getitem :: "'a dataframe \<Rightarrow> str list \<Rightarrow> error + 'a dataframe" where
  "getitem df cols =
     (let missing = filter (\<lambda>c. c \<notin> set (df_columns df)) cols in
      if missing \<noteq> [] then
        (if length missing = length cols then Inl (KeyError cols)
         else Inl (KeyError (unique missing)))
      else Inr \<lparr> df_columns = select_cells (df_columns df) cols (df_columns df),
                 df_rows = map (select_cells (df_columns df) cols) (df_rows df) \<rparr>)"

definition extract_fields_from_input ::
  "str dataframe \<Rightarrow> str list \<Rightarrow> log_record list \<times> (error + str dataframe)" where
  "extract_fields_from_input input_df columns =
     (case getitem input_df columns of
        Inl err \<Rightarrow> ([LogError err (df_columns input_df)], Inl err)
      | Inr fields' \<Rightarrow> ([], Inr fields'))"

text \<open>\<open>sep.join(xs)\<close>\<close>

fun join :: "str \<Rightarrow> str list \<Rightarrow> str" where
  "join sep [] = []"
| "join sep [x] = x"
| "join sep (x # y # ys) = x @ sep @ join sep (y # ys)"

text \<open>\<open>fields_to_include.apply(lambda x: ' '.join(x), axis=1)\<close>: one string per row.\<close>

definition joined_fields :: "str dataframe \<Rightarrow> str list" where
  "joined_fields fields_to_include = map (join (str_of '' '')) (df_rows fields_to_include)"

text \<open>
  \<open>lambda x: generate_hash(x) if x else None\<close>, and \<open>Series.map\<close>, which applies it row by
  row and lets the first exception through.
\<close>

definition hash_or_none :: "(str \<rightharpoonup> str) \<Rightarrow> str \<Rightarrow> error + str option" where
  "hash_or_none environ x =
     (if x \<noteq> [] then
        (case generate_hash environ x None of Inl e \<Rightarrow> Inl e | Inr h \<Rightarrow> Inr (Some h))
      else Inr None)"

fun series_map :: "('a \<Rightarrow> error + 'b) \<Rightarrow> 'a list \<Rightarrow> error + 'b list" where
  "series_map f [] = Inr []"
| "series_map f (x # xs) =
     (case f x of
        Inl e \<Rightarrow> Inl e
      | Inr y \<Rightarrow> (case series_map f xs of Inl e \<Rightarrow> Inl e | Inr ys \<Rightarrow> Inr (y # ys)))"

text \<open>
  \<open>df[label] = values\<close> replaces the column of that label, or appends a new last column.
\<close>

definition setitem :: "'a dataframe \<Rightarrow> str \<Rightarrow> 'a list \<Rightarrow> 'a dataframe" where
  "setitem df label vals =
     (if label \<in> set (df_columns df) then
        df \<lparr> df_rows :=
               map (\<lambda>(r, v). map (\<lambda>(k, x). if k = label then v else x) (zip (df_columns df) r))
                   (zip (df_rows df) vals) \<rparr>
      else
        \<lparr> df_columns = df_columns df @ [label],
          df_rows = map (\<lambda>(r, v). r @ [v]) (zip (df_rows df) vals) \<rparr>)"

text \<open>\<open>df.drop(columns = labels)\<close>: a \<open>KeyError\<close> for labels the frame lacks.\<close>

definition drop_columns :: "'a dataframe \<Rightarrow> str list \<Rightarrow> error + 'a dataframe" where
  "drop_columns df labels =
     (let missing = filter (\<lambda>c. c \<notin> set (df_columns df)) labels in
      if missing \<noteq> [] then Inl (KeyError missing)
      else Inr \<lparr> df_columns = filter (\<lambda>k. k \<notin> set labels) (df_columns df),
                 df_rows = map (\<lambda>r. map snd (filter (\<lambda>kv. fst kv \<notin> set labels)
                                                     (zip (df_columns df) r)))
                               (df_rows df) \<rparr>)"

text \<open>
  The command itself. Its input is the frame that \<open>load_input_from_file_or_stdin\<close> read;
  its result is the log and either the exception that ended it or the frame that
  \<open>to_csv\<close> writes to the standard output. On a frame without rows \<open>apply\<close> hands back a
  frame with the selected columns instead of a series, and the assignment of a frame of
  two or more columns to the one column \<open>hash\<close> raises \<open>ValueError\<close>.
\<close>

definition hashes_of :: "(str \<rightharpoonup> str) \<Rightarrow> str dataframe \<Rightarrow> error + str option list" where
  "hashes_of environ fields_to_include =
     series_map (hash_or_none environ) (joined_fields fields_to_include)"

definition de_identify ::
  "(str \<rightharpoonup> str) \<Rightarrow> str list \<Rightarrow> str dataframe \<Rightarrow> bool
     \<Rightarrow> log_record list \<times> (error + str option dataframe)" where
  "de_identify environ columns input_df drop_input_columns =
     (case extract_fields_from_input input_df columns of
        (log1, Inl e) \<Rightarrow> (log1, Inl e)
      | (log1, Inr fields_to_include) \<Rightarrow>
          (case hashes_of environ fields_to_include of
             Inl e \<Rightarrow> (log1, Inl e)
           | Inr hashes \<Rightarrow>
               if df_rows input_df = [] \<and> 2 \<le> length (df_columns fields_to_include) then
                 (log1, Inl (ValueError
                    ''Cannot set a DataFrame with multiple columns to the single column hash''))
               else
                 (let output_df = setitem \<lparr> df_columns = df_columns input_df,
                                            df_rows = map (map Some) (df_rows input_df) \<rparr>
                                          (str_of ''hash'') hashes
                  in if drop_input_columns then
                       (case drop_columns output_df columns of
                          Inl e \<Rightarrow> (log1 @ [LogError e (df_columns output_df)], Inl e)
                        | Inr dropped \<Rightarrow> (log1, Inr dropped))
                     else (log1, Inr output_df))))"

section \<open>The identifier store and the datastore (datastore.py)\<close>

text \<open>
  The two tables of the warehouse that the identifier functions touch:
  \<open>warehouse.identifier_set\<close> (name, description) and \<open>warehouse.identifier\<close> (the set it
  belongs to, its value). For the minter a session is the database it is connected to.
  For \<open>make_identifier_set\<close> a \<open>DatabaseSession\<close> is that database together with what its
  user has been granted: whether the user may run the insert into
  \<open>warehouse.identifier_set\<close>. \<open>with session\<close> commits what the block did when it ends
  normally and rolls it back when an exception leaves it.
\<close>

record database =
  identifier_sets :: "(str \<times> str option) list"
  identifiers :: "(str \<times> str) list"

record database_session =
  session_db :: database
  may_insert_identifier_set :: bool

text \<open>
  The decorator \<open>catch_permission_denied\<close>, applied to the outcome of the decorated
  call: \<open>InsufficientPrivilege\<close> is raised again as \<open>Forbidden\<close>, everything else passes.
\<close>

definition catch_permission_denied :: "'s \<times> (error + 'a) \<Rightarrow> 's \<times> (error + 'a)" where
  "catch_permission_denied outcome =
     (case outcome of
        (s, Inl InsufficientPrivilege) \<Rightarrow> (s, Inl Forbidden)
      | _ \<Rightarrow> outcome)"

text \<open>
  How \<open>cursor.execute\<close> passes a \<open>str\<close> parameter to the server: the driver encodes it
  (the connection is in UTF-8), which raises \<open>UnicodeEncodeError\<close> for a lone surrogate,
  and then quotes it, which raises \<open>ValueError\<close> for a string that holds U+0000.
\<close>

definition adapt_str :: "str \<Rightarrow> error + byte list" where
  "adapt_str s =
     (case encode_utf8 s of
        Inl e \<Rightarrow> Inl e
      | Inr octets \<Rightarrow>
          if 0 \<in> set s then
            Inl (ValueError ''A string literal cannot contain NUL (0x00) characters.'')
          else Inr octets)"

text \<open>
  \<open>insert into warehouse.identifier_set (name) values (%s) on conflict (name) do nothing\<close>:
  the exception of the driver or of the server (\<open>InsufficientPrivilege\<close> for a user
  without the grant), or the new database and the cursor's \<open>rowcount\<close>.
\<close>

definition insert_identifier_set :: "database_session \<Rightarrow> str \<Rightarrow> error + (database \<times> nat)" where
  "insert_identifier_set session name =
     (case adapt_str name of
        Inl e \<Rightarrow> Inl e
      | Inr octets \<Rightarrow>
          if \<not> may_insert_identifier_set session then Inl InsufficientPrivilege
          else if name \<in> fst ` set (identifier_sets (session_db session)) then
            Inr (session_db session, 0)
          else
            Inr (session_db session
                   \<lparr> identifier_sets := identifier_sets (session_db session) @ [(name, None)] \<rparr>,
                 1))"

definition make_identifier_set ::
  "database_session \<Rightarrow> str \<Rightarrow> database_session \<times> (error + bool)" where
  "make_identifier_set session name =
     catch_permission_denied
       (case insert_identifier_set session name of
          Inl e \<Rightarrow> (session, Inl e)
        | Inr (db', rowcount) \<Rightarrow> (session \<lparr> session_db := db' \<rparr>, Inr (rowcount = 1)))"

subsection \<open>The store contract and the minter\<close>

text \<open>
  Modelled from the spec: \<open>setExists\<close> and \<open>insertIdentifier\<close>, the store contract of
  section 4.1, which the source leaves to SQL statements of the \<open>db\<close> module, absent from
  the sources. A value that already exists is rejected with \<open>False\<close> and the store
  unchanged; an insert into a set that does not exist fails; an accepted value is
  committed at once.
\<close>

definition setExists :: "database \<Rightarrow> str \<Rightarrow> bool" where
  "setExists db name = (name \<in> fst ` set (identifier_sets db))"

definition insertIdentifier :: "database \<Rightarrow> str \<Rightarrow> str \<Rightarrow> error + (database \<times> bool)" where
  "insertIdentifier db setName candidateValue =
     (if \<not> setExists db setName then Inl (IdentifierSetNotFoundError setName)
      else if candidateValue \<in> snd ` set (identifiers db) then Inr (db, False)
      else Inr (db \<lparr> identifiers := identifiers db @ [(setName, candidateValue)] \<rparr>, True))"

text \<open>
  Modelled from the spec: \<open>db.mint_identifiers\<close>, the minter of section 4.2, whose module
  is absent from the sources. The store is a parameter (\<open>store_exists\<close>, \<open>store_insert\<close>), as are the
  consecutive-failure bound \<open>max_failures\<close> and the random source \<open>candidate\<close>, whose
  \<open>i\<close>-th draw is \<open>candidate i\<close>. The loop state is the store, the number of draws made
  (each draw is one insert attempt), the consecutive-failure counter and the values
  minted so far. An accepted candidate is recorded and resets the counter; a collision
  increments it; a counter that has reached the bound ends the call with
  \<open>TooManyFailuresError\<close>, which reports how many identifiers were minted. The store is
  returned as the inserts left it, also on failure.
\<close>

function mint_loop ::
  "('st \<Rightarrow> str \<Rightarrow> str \<Rightarrow> error + ('st \<times> bool)) \<Rightarrow> nat \<Rightarrow> (nat \<Rightarrow> str) \<Rightarrow> str \<Rightarrow> nat
     \<Rightarrow> 'st \<Rightarrow> nat \<Rightarrow> nat \<Rightarrow> str list \<Rightarrow> ('st \<times> nat) \<times> (error + str list)" where
  "mint_loop store_insert max_failures candidate setName n st draws failures minted =
     (if n \<le> length minted then ((st, draws), Inr minted)
      else if max_failures \<le> failures then
        ((st, draws), Inl (TooManyFailuresError (length minted)))
      else
        (case store_insert st setName (candidate draws) of
           Inl e \<Rightarrow> ((st, Suc draws), Inl e)
         | Inr (st', ok) \<Rightarrow>
             if ok then
               mint_loop store_insert max_failures candidate setName n st' (Suc draws) 0
                 (minted @ [candidate draws])
             else
               mint_loop store_insert max_failures candidate setName n st' (Suc draws) (Suc failures)
                 minted))"
  by pat_completeness auto
termination
  by (relation "measures [\<lambda>(ins, m, c, s, n, st, d, f, minted). n - length minted,
                          \<lambda>(ins, m, c, s, n, st, d, f, minted). m - f]") auto

definition mint ::
  "('st \<Rightarrow> str \<Rightarrow> bool) \<Rightarrow> ('st \<Rightarrow> str \<Rightarrow> str \<Rightarrow> error + ('st \<times> bool)) \<Rightarrow> nat \<Rightarrow> (nat \<Rightarrow> str)
     \<Rightarrow> 'st \<Rightarrow> str \<Rightarrow> int \<Rightarrow> ('st \<times> nat) \<times> (error + str list)" where
  "mint store_exists store_insert max_failures candidate st setName n =
     (if \<not> store_exists st setName then ((st, 0), Inl (IdentifierSetNotFoundError setName))
      else mint_loop store_insert max_failures candidate setName (nat n) st 0 0 [])"

text \<open>
  \<open>mint_identifiers\<close> of datastore.py: the call of \<open>db.mint_identifiers\<close> on the session's
  database, with the two translations of its \<open>try\<close> and the decorator around them.
\<close>

definition mint_identifiers ::
  "nat \<Rightarrow> (nat \<Rightarrow> str) \<Rightarrow> database \<Rightarrow> str \<Rightarrow> int \<Rightarrow> (database \<times> nat) \<times> (error + str list)" where
  "mint_identifiers max_failures candidate session name n =
     catch_permission_denied
       (case mint setExists insertIdentifier max_failures candidate session name n of
          (s, Inl (IdentifierSetNotFoundError x)) \<Rightarrow>
             (s, Inl (NotFound (IdentifierSetNotFoundError x)))
        | (s, Inl (TooManyFailuresError k)) \<Rightarrow>
             (s, Inl (ServiceUnavailable (TooManyFailuresError k)))
        | outcome \<Rightarrow> outcome)"

text \<open>
  Modelled from the spec: the always-collision stub of section 8, a store that rejects
  every insert attempt and never changes.
\<close>

definition always_collides :: "'st \<Rightarrow> str \<Rightarrow> str \<Rightarrow> error + ('st \<times> bool)" where
  "always_collides st setName candidateValue = Inr (st, False)"

text \<open>
  What a run of the minter leaves behind, for the proofs: the draws \<open>js\<close>, in increasing
  order and all among the draws \<open>d\<close> up to \<open>d'\<close>, are the accepted ones; their values are
  new and distinct, and the database \<open>db'\<close> is \<open>db\<close> with one row for each, in that order.
\<close>

definition minted_by ::
  "(nat \<Rightarrow> str) \<Rightarrow> str \<Rightarrow> database \<Rightarrow> nat \<Rightarrow> database \<Rightarrow> nat \<Rightarrow> nat list \<Rightarrow> bool" where
  "minted_by candidate name db d db' d' js \<longleftrightarrow>
     sorted_wrt (<) js \<and> set js \<subseteq> {d..<d'} \<and> d \<le> d'
     \<and> distinct (map candidate js)
     \<and> set (map candidate js) \<inter> snd ` set (identifiers db) = {}
     \<and> identifier_sets db' = identifier_sets db
     \<and> identifiers db' = identifiers db @ map (\<lambda>j. (name, candidate j)) js"

text \<open>
  Two random sources for concrete runs: one that draws the same value every time, one
  whose \<open>i\<close>-th draw is the one-character string of code point \<open>i\<close>.
\<close>

definition constant_source :: "str \<Rightarrow> nat \<Rightarrow> str" where
  "constant_source v i = v"

definition counting_source :: "nat \<Rightarrow> str" where
  "counting_source i = [i]"

section \<open>Properties of \<open>generate_hash\<close>\<close>

text \<open>
  C5. An empty identifier or an empty secret is rejected by an assertion, whatever the
  other argument and the environment are, and no digest is computed: with an empty
  identifier the result is the assertion error of the identifier, with an empty secret
  it is an assertion error (of the identifier when that is empty too).
\<close>

theorem generate_hash_rejects_empty:
  "generate_hash environ [] (Some secret) = Inl (AssertionError ''Empty *identifier* provided!'')
   \<and> generate_hash environ (c # cs) (Some []) = Inl (AssertionError ''Empty *secret* provided!'')
   \<and> (\<exists>msg. generate_hash environ identifier (Some []) = Inl (AssertionError msg))"
  by (simp add: generate_hash_def)

text \<open>
  C6. Without a secret argument and without the environment variable the call raises
  the plain \<open>Exception\<close> that names the variable, whatever the identifier is; it is not
  an \<open>AssertionError\<close>.
\<close>

theorem generate_hash_secret_not_configured:
  "generate_hash (environ(ID3C_DEIDENTIFY_SECRET := None)) identifier None
     = Inl (Exception ''The environment variable ID3C_DEIDENTIFY_SECRET is required.'')
   \<and> (\<forall>msg. generate_hash (environ(ID3C_DEIDENTIFY_SECRET := None)) identifier None
              \<noteq> Inl (AssertionError msg))"
  by (simp add: generate_hash_def)

section \<open>The regression vector of \<open>generate_hash\<close>\<close>

text \<open>
  Recursion on a numeral, one step at a time, for the functions that the evaluation
  unfolds.
\<close>

lemma replicate_numeral_step: "replicate (numeral k) x = x # replicate (pred_numeral k) x"
  by (simp only: numeral_eq_Suc [of k] replicate.simps)

lemma be_bytes_numeral:
  "be_bytes (numeral k) v = be_bytes (pred_numeral k) (v div 256) @ [of_nat (v mod 256)]"
  by (simp only: numeral_eq_Suc [of k] be_bytes.simps)

lemma chunks_numeral:
  "chunks (numeral n) k xs = take k xs # chunks (pred_numeral n) k (drop k xs)"
  by (simp only: numeral_eq_Suc [of n] chunks.simps)

lemma schedule_numeral:
  "schedule (numeral k) w =
     schedule (pred_numeral k)
       (w @ [ssig1 (w ! (length w - 2)) + w ! (length w - 7)
             + ssig0 (w ! (length w - 15)) + w ! (length w - 16)])"
  by (simp only: numeral_eq_Suc [of k] schedule.simps)

lemma schedule_add: "schedule (a + b) w = schedule b (schedule a w)"
  by (induction a arbitrary: w) simp_all

lemmas sha_eval = rotr_def Ch_def Maj_def bsig0_def bsig1_def ssig0_def ssig1_def Let_def

text \<open>
  The octets of \<open>"foo"\<close> followed by those of \<open>"abadsecret"\<close> fill one block. The lemmas
  below follow the standard through it: padding, the sixteen words of the block, the
  message schedule twelve words at a time, the sixty-four rounds eight at a time, and
  the digest.
\<close>

lemma vector_pad:
  "pad [0x66, 0x6f, 0x6f, 0x61, 0x62, 0x61, 0x64, 0x73, 0x65, 0x63, 0x72, 0x65,
       0x74] =
     [0x66, 0x6f, 0x6f, 0x61, 0x62, 0x61, 0x64, 0x73, 0x65, 0x63, 0x72, 0x65,
     0x74, 0x80, 0x00, 0x00, 0x00, 0x00, 0x00, 0x00, 0x00, 0x00, 0x00, 0x00,
     0x00, 0x00, 0x00, 0x00, 0x00, 0x00, 0x00, 0x00, 0x00, 0x00, 0x00, 0x00,
     0x00, 0x00, 0x00, 0x00, 0x00, 0x00, 0x00, 0x00, 0x00, 0x00, 0x00, 0x00,
     0x00, 0x00, 0x00, 0x00, 0x00, 0x00, 0x00, 0x00, 0x00, 0x00, 0x00, 0x00,
     0x00, 0x00, 0x00, 0x68]"
  by (simp add: pad_def replicate_numeral_step be_bytes_numeral)

lemma vector_blocks:
  "blocks
     [0x66, 0x6f, 0x6f, 0x61, 0x62, 0x61, 0x64, 0x73, 0x65, 0x63, 0x72, 0x65,
     0x74, 0x80, 0x00, 0x00, 0x00, 0x00, 0x00, 0x00, 0x00, 0x00, 0x00, 0x00,
     0x00, 0x00, 0x00, 0x00, 0x00, 0x00, 0x00, 0x00, 0x00, 0x00, 0x00, 0x00,
     0x00, 0x00, 0x00, 0x00, 0x00, 0x00, 0x00, 0x00, 0x00, 0x00, 0x00, 0x00,
     0x00, 0x00, 0x00, 0x00, 0x00, 0x00, 0x00, 0x00, 0x00, 0x00, 0x00, 0x00,
     0x00, 0x00, 0x00, 0x68] =
    [[0x666f6f61, 0x62616473, 0x65637265, 0x74800000, 0x00000000, 0x00000000,
     0x00000000, 0x00000000, 0x00000000, 0x00000000, 0x00000000, 0x00000000,
     0x00000000, 0x00000000, 0x00000000, 0x00000068]]"
  by (simp add: blocks_def chunks_numeral)

lemma vector_schedule_0:
  "schedule 12
     [0x666f6f61, 0x62616473, 0x65637265, 0x74800000, 0x00000000, 0x00000000,
     0x00000000, 0x00000000, 0x00000000, 0x00000000, 0x00000000, 0x00000000,
     0x00000000, 0x00000000, 0x00000000, 0x00000068] =
     [0x666f6f61, 0x62616473, 0x65637265, 0x74800000, 0x00000000, 0x00000000,
     0x00000000, 0x00000000, 0x00000000, 0x00000000, 0x00000000, 0x00000000,
     0x00000000, 0x00000000, 0x00000000, 0x00000068, 0x1a03a63f, 0x7d9a5663,
     0x1bbb7e2d, 0xd662b7eb, 0xd0d5c075, 0x0d3d0950, 0x58006768, 0x3f84eeba,
     0xbce97d7c, 0x06413736, 0x67a1aba1, 0x8e52141a]"
  by (simp add: schedule_numeral sha_eval)

lemma vector_schedule_1:
  "schedule 12
     [0x666f6f61, 0x62616473, 0x65637265, 0x74800000, 0x00000000, 0x00000000,
     0x00000000, 0x00000000, 0x00000000, 0x00000000, 0x00000000, 0x00000000,
     0x00000000, 0x00000000, 0x00000000, 0x00000068, 0x1a03a63f, 0x7d9a5663,
     0x1bbb7e2d, 0xd662b7eb, 0xd0d5c075, 0x0d3d0950, 0x58006768, 0x3f84eeba,
     0xbce97d7c, 0x06413736, 0x67a1aba1, 0x8e52141a] =
     [0x666f6f61, 0x62616473, 0x65637265, 0x74800000, 0x00000000, 0x00000000,
     0x00000000, 0x00000000, 0x00000000, 0x00000000, 0x00000000, 0x00000000,
     0x00000000, 0x00000000, 0x00000000, 0x00000068, 0x1a03a63f, 0x7d9a5663,
     0x1bbb7e2d, 0xd662b7eb, 0xd0d5c075, 0x0d3d0950, 0x58006768, 0x3f84eeba,
     0xbce97d7c, 0x06413736, 0x67a1aba1, 0x8e52141a, 0xedfa809e, 0xa0ade9ce,
     0x2006c4a9, 0x9bdbe228, 0x37df342d, 0xf97f0a49, 0x8746c32a, 0xaa573c96,
     0x0f3f45b5, 0x69a0fdca, 0x866d4f24, 0x8a660731]"
  by (simp add: schedule_numeral sha_eval)

lemma vector_schedule_2:
  "schedule 12
     [0x666f6f61, 0x62616473, 0x65637265, 0x74800000, 0x00000000, 0x00000000,
     0x00000000, 0x00000000, 0x00000000, 0x00000000, 0x00000000, 0x00000000,
     0x00000000, 0x00000000, 0x00000000, 0x00000068, 0x1a03a63f, 0x7d9a5663,
     0x1bbb7e2d, 0xd662b7eb, 0xd0d5c075, 0x0d3d0950, 0x58006768, 0x3f84eeba,
     0xbce97d7c, 0x06413736, 0x67a1aba1, 0x8e52141a, 0xedfa809e, 0xa0ade9ce,
     0x2006c4a9, 0x9bdbe228, 0x37df342d, 0xf97f0a49, 0x8746c32a, 0xaa573c96,
     0x0f3f45b5, 0x69a0fdca, 0x866d4f24, 0x8a660731] =
     [0x666f6f61, 0x62616473, 0x65637265, 0x74800000, 0x00000000, 0x00000000,
     0x00000000, 0x00000000, 0x00000000, 0x00000000, 0x00000000, 0x00000000,
     0x00000000, 0x00000000, 0x00000000, 0x00000068, 0x1a03a63f, 0x7d9a5663,
     0x1bbb7e2d, 0xd662b7eb, 0xd0d5c075, 0x0d3d0950, 0x58006768, 0x3f84eeba,
     0xbce97d7c, 0x06413736, 0x67a1aba1, 0x8e52141a, 0xedfa809e, 0xa0ade9ce,
     0x2006c4a9, 0x9bdbe228, 0x37df342d, 0xf97f0a49, 0x8746c32a, 0xaa573c96,
     0x0f3f45b5, 0x69a0fdca, 0x866d4f24, 0x8a660731, 0xe5c8f585, 0x75b79829,
     0x181469d6, 0x5ce171c6, 0x049a973b, 0xa552b3bf, 0x7eaf7dcc, 0x22c55f76,
     0x4d2648b5, 0x0b1dccbe, 0xc8c35f13, 0xc950ad61]"
  by (simp add: schedule_numeral sha_eval)

lemma vector_schedule_3:
  "schedule 12
     [0x666f6f61, 0x62616473, 0x65637265, 0x74800000, 0x00000000, 0x00000000,
     0x00000000, 0x00000000, 0x00000000, 0x00000000, 0x00000000, 0x00000000,
     0x00000000, 0x00000000, 0x00000000, 0x00000068, 0x1a03a63f, 0x7d9a5663,
     0x1bbb7e2d, 0xd662b7eb, 0xd0d5c075, 0x0d3d0950, 0x58006768, 0x3f84eeba,
     0xbce97d7c, 0x06413736, 0x67a1aba1, 0x8e52141a, 0xedfa809e, 0xa0ade9ce,
     0x2006c4a9, 0x9bdbe228, 0x37df342d, 0xf97f0a49, 0x8746c32a, 0xaa573c96,
     0x0f3f45b5, 0x69a0fdca, 0x866d4f24, 0x8a660731, 0xe5c8f585, 0x75b79829,
     0x181469d6, 0x5ce171c6, 0x049a973b, 0xa552b3bf, 0x7eaf7dcc, 0x22c55f76,
     0x4d2648b5, 0x0b1dccbe, 0xc8c35f13, 0xc950ad61] =
     [0x666f6f61, 0x62616473, 0x65637265, 0x74800000, 0x00000000, 0x00000000,
     0x00000000, 0x00000000, 0x00000000, 0x00000000, 0x00000000, 0x00000000,
     0x00000000, 0x00000000, 0x00000000, 0x00000068, 0x1a03a63f, 0x7d9a5663,
     0x1bbb7e2d, 0xd662b7eb, 0xd0d5c075, 0x0d3d0950, 0x58006768, 0x3f84eeba,
     0xbce97d7c, 0x06413736, 0x67a1aba1, 0x8e52141a, 0xedfa809e, 0xa0ade9ce,
     0x2006c4a9, 0x9bdbe228, 0x37df342d, 0xf97f0a49, 0x8746c32a, 0xaa573c96,
     0x0f3f45b5, 0x69a0fdca, 0x866d4f24, 0x8a660731, 0xe5c8f585, 0x75b79829,
     0x181469d6, 0x5ce171c6, 0x049a973b, 0xa552b3bf, 0x7eaf7dcc, 0x22c55f76,
     0x4d2648b5, 0x0b1dccbe, 0xc8c35f13, 0xc950ad61, 0x1f816b4c, 0x35875820,
     0x358f8975, 0x48b9c3b4, 0xe0d7e32f, 0xcd809e63, 0xca83cca3, 0xac868358,
     0xa1284681, 0xb52a4e90, 0xb2e29a01, 0x63682016]"
  by (simp add: schedule_numeral sha_eval)

lemma vector_schedule:
  "schedule 48
     [0x666f6f61, 0x62616473, 0x65637265, 0x74800000, 0x00000000, 0x00000000,
     0x00000000, 0x00000000, 0x00000000, 0x00000000, 0x00000000, 0x00000000,
     0x00000000, 0x00000000, 0x00000000, 0x00000068] =
     [0x666f6f61, 0x62616473, 0x65637265, 0x74800000, 0x00000000, 0x00000000,
     0x00000000, 0x00000000, 0x00000000, 0x00000000, 0x00000000, 0x00000000,
     0x00000000, 0x00000000, 0x00000000, 0x00000068, 0x1a03a63f, 0x7d9a5663,
     0x1bbb7e2d, 0xd662b7eb, 0xd0d5c075, 0x0d3d0950, 0x58006768, 0x3f84eeba,
     0xbce97d7c, 0x06413736, 0x67a1aba1, 0x8e52141a, 0xedfa809e, 0xa0ade9ce,
     0x2006c4a9, 0x9bdbe228, 0x37df342d, 0xf97f0a49, 0x8746c32a, 0xaa573c96,
     0x0f3f45b5, 0x69a0fdca, 0x866d4f24, 0x8a660731, 0xe5c8f585, 0x75b79829,
     0x181469d6, 0x5ce171c6, 0x049a973b, 0xa552b3bf, 0x7eaf7dcc, 0x22c55f76,
     0x4d2648b5, 0x0b1dccbe, 0xc8c35f13, 0xc950ad61, 0x1f816b4c, 0x35875820,
     0x358f8975, 0x48b9c3b4, 0xe0d7e32f, 0xcd809e63, 0xca83cca3, 0xac868358,
     0xa1284681, 0xb52a4e90, 0xb2e29a01, 0x63682016]"
proof -
  have "schedule (12 + 12 + 12 + 12)
     [0x666f6f61, 0x62616473, 0x65637265, 0x74800000, 0x00000000, 0x00000000,
     0x00000000, 0x00000000, 0x00000000, 0x00000000, 0x00000000, 0x00000000,
     0x00000000, 0x00000000, 0x00000000, 0x00000068] =
     [0x666f6f61, 0x62616473, 0x65637265, 0x74800000, 0x00000000, 0x00000000,
     0x00000000, 0x00000000, 0x00000000, 0x00000000, 0x00000000, 0x00000000,
     0x00000000, 0x00000000, 0x00000000, 0x00000068, 0x1a03a63f, 0x7d9a5663,
     0x1bbb7e2d, 0xd662b7eb, 0xd0d5c075, 0x0d3d0950, 0x58006768, 0x3f84eeba,
     0xbce97d7c, 0x06413736, 0x67a1aba1, 0x8e52141a, 0xedfa809e, 0xa0ade9ce,
     0x2006c4a9, 0x9bdbe228, 0x37df342d, 0xf97f0a49, 0x8746c32a, 0xaa573c96,
     0x0f3f45b5, 0x69a0fdca, 0x866d4f24, 0x8a660731, 0xe5c8f585, 0x75b79829,
     0x181469d6, 0x5ce171c6, 0x049a973b, 0xa552b3bf, 0x7eaf7dcc, 0x22c55f76,
     0x4d2648b5, 0x0b1dccbe, 0xc8c35f13, 0xc950ad61, 0x1f816b4c, 0x35875820,
     0x358f8975, 0x48b9c3b4, 0xe0d7e32f, 0xcd809e63, 0xca83cca3, 0xac868358,
     0xa1284681, 0xb52a4e90, 0xb2e29a01, 0x63682016]"
    by (simp only: schedule_add vector_schedule_0 vector_schedule_1 vector_schedule_2
                   vector_schedule_3)
  then show ?thesis by simp
qed

lemma vector_rounds_0:
  "foldl round256
     [0x6a09e667, 0xbb67ae85, 0x3c6ef372, 0xa54ff53a,
     0x510e527f, 0x9b05688c, 0x1f83d9ab, 0x5be0cd19]
      [(0x428a2f98, 0x666f6f61), (0x71374491, 0x62616473), (0xb5c0fbcf, 0x65637265),
       (0xe9b5dba5, 0x74800000), (0x3956c25b, 0x00000000), (0x59f111f1, 0x00000000),
       (0x923f82a4, 0x00000000), (0xab1c5ed5, 0x00000000)] =
     [0x52ed0419, 0x62a2bcee, 0x1716340f, 0xbc162db7,
     0x4b234648, 0x68ee56bd, 0x7f966c7c, 0x54e32fd6]"
  by (simp add: sha_eval)

lemma vector_rounds_8:
  "foldl round256
     [0x52ed0419, 0x62a2bcee, 0x1716340f, 0xbc162db7,
     0x4b234648, 0x68ee56bd, 0x7f966c7c, 0x54e32fd6]
      [(0xd807aa98, 0x00000000), (0x12835b01, 0x00000000), (0x243185be, 0x00000000),
       (0x550c7dc3, 0x00000000), (0x72be5d74, 0x00000000), (0x80deb1fe, 0x00000000),
       (0x9bdc06a7, 0x00000000), (0xc19bf174, 0x00000068)] =
     [0x609b219f, 0xe2c2c61c, 0x541fd755, 0x4d01b5fc,
     0x6b03c98a, 0x771ad39f, 0xcc051271, 0xe964313f]"
  by (simp add: sha_eval)

lemma vector_rounds_16:
  "foldl round256
     [0x609b219f, 0xe2c2c61c, 0x541fd755, 0x4d01b5fc,
     0x6b03c98a, 0x771ad39f, 0xcc051271, 0xe964313f]
      [(0xe49b69c1, 0x1a03a63f), (0xefbe4786, 0x7d9a5663), (0x0fc19dc6, 0x1bbb7e2d),
       (0x240ca1cc, 0xd662b7eb), (0x2de92c6f, 0xd0d5c075), (0x4a7484aa, 0x0d3d0950),
       (0x5cb0a9dc, 0x58006768), (0x76f988da, 0x3f84eeba)] =
     [0xb6d43a2f, 0xa6c06ee7, 0x7b4384fb, 0x58487cca,
     0xfcd3c512, 0xad79c7d1, 0xcf119af7, 0x1fec3966]"
  by (simp add: sha_eval)

lemma vector_rounds_24:
  "foldl round256
     [0xb6d43a2f, 0xa6c06ee7, 0x7b4384fb, 0x58487cca,
     0xfcd3c512, 0xad79c7d1, 0xcf119af7, 0x1fec3966]
      [(0x983e5152, 0xbce97d7c), (0xa831c66d, 0x06413736), (0xb00327c8, 0x67a1aba1),
       (0xbf597fc7, 0x8e52141a), (0xc6e00bf3, 0xedfa809e), (0xd5a79147, 0xa0ade9ce),
       (0x06ca6351, 0x2006c4a9), (0x14292967, 0x9bdbe228)] =
     [0x94d96500, 0xa46f2017, 0xce9bca57, 0xfd330a06,
     0x7bdc16bf, 0xb4e8969c, 0x9efd9599, 0x26921df8]"
  by (simp add: sha_eval)

lemma vector_rounds_32:
  "foldl round256
     [0x94d96500, 0xa46f2017, 0xce9bca57, 0xfd330a06,
     0x7bdc16bf, 0xb4e8969c, 0x9efd9599, 0x26921df8]
      [(0x27b70a85, 0x37df342d), (0x2e1b2138, 0xf97f0a49), (0x4d2c6dfc, 0x8746c32a),
       (0x53380d13, 0xaa573c96), (0x650a7354, 0x0f3f45b5), (0x766a0abb, 0x69a0fdca),
       (0x81c2c92e, 0x866d4f24), (0x92722c85, 0x8a660731)] =
     [0x04b678d5, 0x72cce742, 0xa6d53228, 0xc0e647a9,
     0xbb37e210, 0x89f0553f, 0xb78a7efe, 0x8e7f224f]"
  by (simp add: sha_eval)

lemma vector_rounds_40:
  "foldl round256
     [0x04b678d5, 0x72cce742, 0xa6d53228, 0xc0e647a9,
     0xbb37e210, 0x89f0553f, 0xb78a7efe, 0x8e7f224f]
      [(0xa2bfe8a1, 0xe5c8f585), (0xa81a664b, 0x75b79829), (0xc24b8b70, 0x181469d6),
       (0xc76c51a3, 0x5ce171c6), (0xd192e819, 0x049a973b), (0xd6990624, 0xa552b3bf),
       (0xf40e3585, 0x7eaf7dcc), (0x106aa070, 0x22c55f76)] =
     [0x31f9a783, 0x1e92f073, 0x18854bb4, 0x3126977d,
     0x6ac1e230, 0x42562495, 0x5b857632, 0xa044098e]"
  by (simp add: sha_eval)

lemma vector_rounds_48:
  "foldl round256
     [0x31f9a783, 0x1e92f073, 0x18854bb4, 0x3126977d,
     0x6ac1e230, 0x42562495, 0x5b857632, 0xa044098e]
      [(0x19a4c116, 0x4d2648b5), (0x1e376c08, 0x0b1dccbe), (0x2748774c, 0xc8c35f13),
       (0x34b0bcb5, 0xc950ad61), (0x391c0cb3, 0x1f816b4c), (0x4ed8aa4a, 0x35875820),
       (0x5b9cca4f, 0x358f8975), (0x682e6ff3, 0x48b9c3b4)] =
     [0xaa98c32b, 0xfc1753fa, 0x914834e0, 0x817a84c8,
     0x59c5235b, 0x35feaa56, 0x7a05837c, 0x2bbc9724]"
  by (simp add: sha_eval)

lemma vector_rounds_56:
  "foldl round256
     [0xaa98c32b, 0xfc1753fa, 0x914834e0, 0x817a84c8,
     0x59c5235b, 0x35feaa56, 0x7a05837c, 0x2bbc9724]
      [(0x748f82ee, 0xe0d7e32f), (0x78a5636f, 0xcd809e63), (0x84c87814, 0xca83cca3),
       (0x8cc70208, 0xac868358), (0x90befffa, 0xa1284681), (0xa4506ceb, 0xb52a4e90),
       (0xbef9a3f7, 0xb2e29a01), (0xc67178f2, 0x63682016)] =
     [0x089db3a8, 0x664a5d17, 0x409b1e08, 0x3870e3dd,
     0x6bcbdde6, 0x2ec2ca0e, 0xcaf3d771, 0x57afc9af]"
  by (simp add: sha_eval)

lemma vector_zip:
  "zip K256
     [0x666f6f61, 0x62616473, 0x65637265, 0x74800000, 0x00000000, 0x00000000,
     0x00000000, 0x00000000, 0x00000000, 0x00000000, 0x00000000, 0x00000000,
     0x00000000, 0x00000000, 0x00000000, 0x00000068, 0x1a03a63f, 0x7d9a5663,
     0x1bbb7e2d, 0xd662b7eb, 0xd0d5c075, 0x0d3d0950, 0x58006768, 0x3f84eeba,
     0xbce97d7c, 0x06413736, 0x67a1aba1, 0x8e52141a, 0xedfa809e, 0xa0ade9ce,
     0x2006c4a9, 0x9bdbe228, 0x37df342d, 0xf97f0a49, 0x8746c32a, 0xaa573c96,
     0x0f3f45b5, 0x69a0fdca, 0x866d4f24, 0x8a660731, 0xe5c8f585, 0x75b79829,
     0x181469d6, 0x5ce171c6, 0x049a973b, 0xa552b3bf, 0x7eaf7dcc, 0x22c55f76,
     0x4d2648b5, 0x0b1dccbe, 0xc8c35f13, 0xc950ad61, 0x1f816b4c, 0x35875820,
     0x358f8975, 0x48b9c3b4, 0xe0d7e32f, 0xcd809e63, 0xca83cca3, 0xac868358,
     0xa1284681, 0xb52a4e90, 0xb2e29a01, 0x63682016] =
      [(0x428a2f98, 0x666f6f61), (0x71374491, 0x62616473), (0xb5c0fbcf, 0x65637265),
       (0xe9b5dba5, 0x74800000), (0x3956c25b, 0x00000000), (0x59f111f1, 0x00000000),
       (0x923f82a4, 0x00000000), (0xab1c5ed5, 0x00000000)] @
      [(0xd807aa98, 0x00000000), (0x12835b01, 0x00000000), (0x243185be, 0x00000000),
       (0x550c7dc3, 0x00000000), (0x72be5d74, 0x00000000), (0x80deb1fe, 0x00000000),
       (0x9bdc06a7, 0x00000000), (0xc19bf174, 0x00000068)] @
      [(0xe49b69c1, 0x1a03a63f), (0xefbe4786, 0x7d9a5663), (0x0fc19dc6, 0x1bbb7e2d),
       (0x240ca1cc, 0xd662b7eb), (0x2de92c6f, 0xd0d5c075), (0x4a7484aa, 0x0d3d0950),
       (0x5cb0a9dc, 0x58006768), (0x76f988da, 0x3f84eeba)] @
      [(0x983e5152, 0xbce97d7c), (0xa831c66d, 0x06413736), (0xb00327c8, 0x67a1aba1),
       (0xbf597fc7, 0x8e52141a), (0xc6e00bf3, 0xedfa809e), (0xd5a79147, 0xa0ade9ce),
       (0x06ca6351, 0x2006c4a9), (0x14292967, 0x9bdbe228)] @
      [(0x27b70a85, 0x37df342d), (0x2e1b2138, 0xf97f0a49), (0x4d2c6dfc, 0x8746c32a),
       (0x53380d13, 0xaa573c96), (0x650a7354, 0x0f3f45b5), (0x766a0abb, 0x69a0fdca),
       (0x81c2c92e, 0x866d4f24), (0x92722c85, 0x8a660731)] @
      [(0xa2bfe8a1, 0xe5c8f585), (0xa81a664b, 0x75b79829), (0xc24b8b70, 0x181469d6),
       (0xc76c51a3, 0x5ce171c6), (0xd192e819, 0x049a973b), (0xd6990624, 0xa552b3bf),
       (0xf40e3585, 0x7eaf7dcc), (0x106aa070, 0x22c55f76)] @
      [(0x19a4c116, 0x4d2648b5), (0x1e376c08, 0x0b1dccbe), (0x2748774c, 0xc8c35f13),
       (0x34b0bcb5, 0xc950ad61), (0x391c0cb3, 0x1f816b4c), (0x4ed8aa4a, 0x35875820),
       (0x5b9cca4f, 0x358f8975), (0x682e6ff3, 0x48b9c3b4)] @
      [(0x748f82ee, 0xe0d7e32f), (0x78a5636f, 0xcd809e63), (0x84c87814, 0xca83cca3),
       (0x8cc70208, 0xac868358), (0x90befffa, 0xa1284681), (0xa4506ceb, 0xb52a4e90),
       (0xbef9a3f7, 0xb2e29a01), (0xc67178f2, 0x63682016)]"
  by (simp add: K256_def)

lemma vector_compress:
  "compress H256
     [0x666f6f61, 0x62616473, 0x65637265, 0x74800000, 0x00000000, 0x00000000,
     0x00000000, 0x00000000, 0x00000000, 0x00000000, 0x00000000, 0x00000000,
     0x00000000, 0x00000000, 0x00000000, 0x00000068] =
     [0x72a79a0f, 0x21b20b9c, 0x7d0a117a, 0xddc0d917,
     0xbcda3065, 0xc9c8329a, 0xea77b11c, 0xb39096c8]"
proof -
  have "foldl round256 H256
     (zip K256
     [0x666f6f61, 0x62616473, 0x65637265, 0x74800000, 0x00000000, 0x00000000,
     0x00000000, 0x00000000, 0x00000000, 0x00000000, 0x00000000, 0x00000000,
     0x00000000, 0x00000000, 0x00000000, 0x00000068, 0x1a03a63f, 0x7d9a5663,
     0x1bbb7e2d, 0xd662b7eb, 0xd0d5c075, 0x0d3d0950, 0x58006768, 0x3f84eeba,
     0xbce97d7c, 0x06413736, 0x67a1aba1, 0x8e52141a, 0xedfa809e, 0xa0ade9ce,
     0x2006c4a9, 0x9bdbe228, 0x37df342d, 0xf97f0a49, 0x8746c32a, 0xaa573c96,
     0x0f3f45b5, 0x69a0fdca, 0x866d4f24, 0x8a660731, 0xe5c8f585, 0x75b79829,
     0x181469d6, 0x5ce171c6, 0x049a973b, 0xa552b3bf, 0x7eaf7dcc, 0x22c55f76,
     0x4d2648b5, 0x0b1dccbe, 0xc8c35f13, 0xc950ad61, 0x1f816b4c, 0x35875820,
     0x358f8975, 0x48b9c3b4, 0xe0d7e32f, 0xcd809e63, 0xca83cca3, 0xac868358,
     0xa1284681, 0xb52a4e90, 0xb2e29a01, 0x63682016]) =
     [0x089db3a8, 0x664a5d17, 0x409b1e08, 0x3870e3dd,
     0x6bcbdde6, 0x2ec2ca0e, 0xcaf3d771, 0x57afc9af]"
    by (simp only: vector_zip foldl_append H256_def vector_rounds_0 vector_rounds_8 vector_rounds_16 vector_rounds_24 vector_rounds_32 vector_rounds_40 vector_rounds_48 vector_rounds_56)
  then show ?thesis
    by (simp add: compress_def vector_schedule) (simp add: H256_def)
qed

lemma vector_sha256:
  "sha256 [0x66, 0x6f, 0x6f, 0x61, 0x62, 0x61, 0x64, 0x73, 0x65, 0x63, 0x72, 0x65,
       0x74] =
     [0x72, 0xa7, 0x9a, 0x0f, 0x21, 0xb2, 0x0b, 0x9c, 0x7d, 0x0a, 0x11, 0x7a,
     0xdd, 0xc0, 0xd9, 0x17, 0xbc, 0xda, 0x30, 0x65, 0xc9, 0xc8, 0x32, 0x9a,
     0xea, 0x77, 0xb1, 0x1c, 0xb3, 0x90, 0x96, 0xc8]"
  by (simp add: sha256_def vector_pad vector_blocks vector_compress be_bytes_numeral)

lemma vector_hex:
  "hex [0x72, 0xa7, 0x9a, 0x0f, 0x21, 0xb2, 0x0b, 0x9c, 0x7d, 0x0a, 0x11, 0x7a,
     0xdd, 0xc0, 0xd9, 0x17, 0xbc, 0xda, 0x30, 0x65, 0xc9, 0xc8, 0x32, 0x9a,
     0xea, 0x77, 0xb1, 0x1c, 0xb3, 0x90, 0x96, 0xc8] =
     ''72a79a0f21b20b9c7d0a117addc0d917bcda3065c9c8329aea77b11cb39096c8''"
  by (simp add: hex_def hexdigit_def)

lemma encode_utf8_foo: "encode_utf8 (str_of ''foo'') = Inr [0x66, 0x6f, 0x6f]"
  by (simp add: str_of_def utf8_code_point_def)

lemma encode_utf8_abadsecret:
  "encode_utf8 (str_of ''abadsecret'')
     = Inr [0x61, 0x62, 0x61, 0x64, 0x73, 0x65, 0x63, 0x72, 0x65, 0x74]"
  by (simp add: str_of_def utf8_code_point_def)

lemma encode_utf8_error: "encode_utf8 s = Inl e \<Longrightarrow> e = UnicodeEncodeError"
  by (induction s arbitrary: e) (auto split: option.splits sum.splits)

lemma utf8_code_point_scalar:
  "c < 0x110000 \<Longrightarrow> c < 0xD800 \<or> 0xDFFF < c \<Longrightarrow> \<exists>octets. utf8_code_point c = Some octets"
  by (auto simp: utf8_code_point_def)

lemma utf8_code_point_surrogate:
  "0xD800 \<le> c \<Longrightarrow> c \<le> 0xDFFF \<Longrightarrow> utf8_code_point c = None"
  by (simp add: utf8_code_point_def)

lemma encode_utf8_scalar:
  "\<forall>c \<in> set s. c < 0x110000 \<and> (c < 0xD800 \<or> 0xDFFF < c) \<Longrightarrow>
     \<exists>octets. encode_utf8 s = Inr octets"
proof (induction s)
  case Nil
  then show ?case by simp
next
  case (Cons c cs)
  then obtain first rest where "utf8_code_point c = Some first" "encode_utf8 cs = Inr rest"
    using utf8_code_point_scalar [of c] by auto
  then show ?case by simp
qed

lemma encode_utf8_surrogate:
  "\<exists>c \<in> set s. 0xD800 \<le> c \<and> c \<le> 0xDFFF \<Longrightarrow> encode_utf8 s = Inl UnicodeEncodeError"
proof (induction s)
  case Nil
  then show ?case by simp
next
  case (Cons c cs)
  show ?case
  proof (cases "0xD800 \<le> c \<and> c \<le> 0xDFFF")
    case True
    then show ?thesis by (simp add: utf8_code_point_surrogate)
  next
    case False
    with Cons.prems have "\<exists>c \<in> set cs. 0xD800 \<le> c \<and> c \<le> 0xDFFF"
      by auto
    then have "encode_utf8 cs = Inl UnicodeEncodeError"
      by (rule Cons.IH)
    then show ?thesis by (simp split: option.splits)
  qed
qed

lemma generate_hash_surrogate:
  assumes "identifier \<noteq> []" and "secret \<noteq> []"
    and "\<exists>c \<in> set (identifier @ secret). 0xD800 \<le> c \<and> c \<le> 0xDFFF"
  shows "generate_hash environ identifier (Some secret) = Inl UnicodeEncodeError"
proof (cases "encode_utf8 identifier")
  case (Inl e)
  then have "e = UnicodeEncodeError" by (rule encode_utf8_error)
  with Inl assms(1,2) show ?thesis by (simp add: generate_hash_def)
next
  case (Inr octets)
  then have "\<not> (\<exists>c \<in> set identifier. 0xD800 \<le> c \<and> c \<le> 0xDFFF)"
    using encode_utf8_surrogate [of "identifier"] by auto
  with assms(3) have "\<exists>c \<in> set secret. 0xD800 \<le> c \<and> c \<le> 0xDFFF"
    by auto
  then have "encode_utf8 secret = Inl UnicodeEncodeError"
    by (rule encode_utf8_surrogate)
  with Inr assms(1,2) show ?thesis by (simp add: generate_hash_def)
qed

lemma generate_hash_eq:
  assumes "identifier \<noteq> []" and "secret \<noteq> []"
    and "encode_utf8 identifier = Inr identifier_bytes"
    and "encode_utf8 secret = Inr secret_bytes"
  shows "generate_hash environ identifier (Some secret)
           = Inr (str_of (hex (sha256 (identifier_bytes @ secret_bytes))))"
  using assms by (simp add: generate_hash_def hexdigest_def update_def hashlib_sha256_def)

lemma hexdigit_lowercase: "n < 16 \<Longrightarrow> hexdigit n \<in> set ''0123456789abcdef''"
  unfolding hexdigit_def by (rule nth_mem) simp

lemma hex_lowercase: "set (hex bs) \<subseteq> set ''0123456789abcdef''"
proof -
  have "hexdigit (unat b div 16) \<in> set ''0123456789abcdef''
        \<and> hexdigit (unat b mod 16) \<in> set ''0123456789abcdef''" for b :: byte
  proof -
    have "unat b < 256"
      using unsigned_less [of b] by simp
    then have "unat b div 16 < 16" "unat b mod 16 < 16"
      by simp_all
    then show ?thesis
      by (simp only: hexdigit_lowercase)
  qed
  then show ?thesis
    unfolding hex_def by (induction bs) auto
qed

text \<open>
  C1. For a non-empty identifier and a non-empty secret whose UTF-8 octets are
  \<open>identifier_bytes\<close> and \<open>secret_bytes\<close>, \<open>generate_hash\<close> returns the hexadecimal
  digits, two for each octet and in lowercase, of the SHA-256 digest of
  \<open>identifier_bytes\<close> followed by \<open>secret_bytes\<close>. Both strings have UTF-8 octets when
  every code point of theirs is a Unicode scalar value; when one of them holds a
  surrogate the call raises \<open>UnicodeEncodeError\<close>. For \<open>"foo"\<close> and \<open>"abadsecret"\<close> the
  result is the string given in the docstring.
\<close>

theorem generate_hash_sha256_hex:
  "(identifier \<noteq> [] \<and> secret \<noteq> []
      \<and> encode_utf8 identifier = Inr identifier_bytes
      \<and> encode_utf8 secret = Inr secret_bytes \<longrightarrow>
      generate_hash environ identifier (Some secret)
        = Inr (str_of (hex (sha256 (identifier_bytes @ secret_bytes)))))
   \<and> (identifier \<noteq> [] \<and> secret \<noteq> []
        \<and> (\<forall>c \<in> set (identifier @ secret). c < 0x110000 \<and> (c < 0xD800 \<or> 0xDFFF < c)) \<longrightarrow>
        (\<exists>ib sb. encode_utf8 identifier = Inr ib \<and> encode_utf8 secret = Inr sb
           \<and> generate_hash environ identifier (Some secret)
               = Inr (str_of (hex (sha256 (ib @ sb))))))
   \<and> (identifier \<noteq> [] \<and> secret \<noteq> []
        \<and> (\<exists>c \<in> set (identifier @ secret). 0xD800 \<le> c \<and> c \<le> 0xDFFF) \<longrightarrow>
        generate_hash environ identifier (Some secret) = Inl UnicodeEncodeError)
   \<and> set (hex bs) \<subseteq> set ''0123456789abcdef'' \<and> length (hex bs) = 2 * length bs
   \<and> generate_hash environ (str_of ''foo'') (Some (str_of ''abadsecret''))
       = Inr (str_of ''72a79a0f21b20b9c7d0a117addc0d917bcda3065c9c8329aea77b11cb39096c8'')"
proof (intro conjI impI)
  assume "identifier \<noteq> [] \<and> secret \<noteq> []
      \<and> encode_utf8 identifier = Inr identifier_bytes
      \<and> encode_utf8 secret = Inr secret_bytes"
  then show "generate_hash environ identifier (Some secret)
        = Inr (str_of (hex (sha256 (identifier_bytes @ secret_bytes))))"
    by (simp add: generate_hash_eq)
next
  assume a: "identifier \<noteq> [] \<and> secret \<noteq> []
        \<and> (\<forall>c \<in> set (identifier @ secret). c < 0x110000 \<and> (c < 0xD800 \<or> 0xDFFF < c))"
  then obtain ib sb where "encode_utf8 identifier = Inr ib" "encode_utf8 secret = Inr sb"
    using encode_utf8_scalar [of "identifier"] encode_utf8_scalar [of secret] by auto
  with a show "\<exists>ib sb. encode_utf8 identifier = Inr ib \<and> encode_utf8 secret = Inr sb
           \<and> generate_hash environ identifier (Some secret)
               = Inr (str_of (hex (sha256 (ib @ sb))))"
    by (simp add: generate_hash_eq)
next
  assume "identifier \<noteq> [] \<and> secret \<noteq> []
        \<and> (\<exists>c \<in> set (identifier @ secret). 0xD800 \<le> c \<and> c \<le> 0xDFFF)"
  then show "generate_hash environ identifier (Some secret) = Inl UnicodeEncodeError"
    by (simp add: generate_hash_surrogate)
next
  show "set (hex bs) \<subseteq> set ''0123456789abcdef''"
    by (rule hex_lowercase)
next
  show "length (hex bs) = 2 * length bs"
    unfolding hex_def by (induction bs) simp_all
next
  have "str_of ''foo'' \<noteq> []" "str_of ''abadsecret'' \<noteq> []"
    by (simp_all add: str_of_def)
  then have "generate_hash environ (str_of ''foo'') (Some (str_of ''abadsecret''))
      = Inr (str_of (hex (sha256 ([0x66, 0x6f, 0x6f]
               @ [0x61, 0x62, 0x61, 0x64, 0x73, 0x65, 0x63, 0x72, 0x65, 0x74]))))"
    using encode_utf8_foo encode_utf8_abadsecret by (rule generate_hash_eq)
  then show "generate_hash environ (str_of ''foo'') (Some (str_of ''abadsecret''))
       = Inr (str_of ''72a79a0f21b20b9c7d0a117addc0d917bcda3065c9c8329aea77b11cb39096c8'')"
    by (simp only: append.simps vector_sha256 vector_hex)
qed

theorem generate_hash_sha256_hex_witness:
  "str_of ''foo'' \<noteq> [] \<and> str_of ''abadsecret'' \<noteq> []
   \<and> encode_utf8 (str_of ''foo'') = Inr [0x66, 0x6f, 0x6f]
   \<and> encode_utf8 (str_of ''abadsecret'')
       = Inr [0x61, 0x62, 0x61, 0x64, 0x73, 0x65, 0x63, 0x72, 0x65, 0x74]
   \<and> generate_hash Map.empty (str_of ''foo'') (Some (str_of ''abadsecret''))
       = Inr (str_of (hex (sha256 ([0x66, 0x6f, 0x6f]
                @ [0x61, 0x62, 0x61, 0x64, 0x73, 0x65, 0x63, 0x72, 0x65, 0x74]))))
   \<and> str_of (hex (sha256 ([0x66, 0x6f, 0x6f]
                @ [0x61, 0x62, 0x61, 0x64, 0x73, 0x65, 0x63, 0x72, 0x65, 0x74])))
       = str_of ''72a79a0f21b20b9c7d0a117addc0d917bcda3065c9c8329aea77b11cb39096c8''"
proof -
  have ne: "str_of ''foo'' \<noteq> []" "str_of ''abadsecret'' \<noteq> []"
    by (simp_all add: str_of_def)
  note vector = generate_hash_sha256_hex
         [of "str_of ''foo''" "str_of ''abadsecret''" "[0x66, 0x6f, 0x6f]"
             "[0x61, 0x62, 0x61, 0x64, 0x73, 0x65, 0x63, 0x72, 0x65, 0x74]" Map.empty "[]"]
  from vector ne encode_utf8_foo encode_utf8_abadsecret
  have a: "generate_hash Map.empty (str_of ''foo'') (Some (str_of ''abadsecret''))
       = Inr (str_of (hex (sha256 ([0x66, 0x6f, 0x6f]
                @ [0x61, 0x62, 0x61, 0x64, 0x73, 0x65, 0x63, 0x72, 0x65, 0x74]))))"
    by blast
  from vector
  have b: "generate_hash Map.empty (str_of ''foo'') (Some (str_of ''abadsecret''))
       = Inr (str_of ''72a79a0f21b20b9c7d0a117addc0d917bcda3065c9c8329aea77b11cb39096c8'')"
    by blast
  from a [symmetric] b
  have "(Inr (str_of (hex (sha256 ([0x66, 0x6f, 0x6f]
                @ [0x61, 0x62, 0x61, 0x64, 0x73, 0x65, 0x63, 0x72, 0x65, 0x74])))) :: error + str)
       = Inr (str_of ''72a79a0f21b20b9c7d0a117addc0d917bcda3065c9c8329aea77b11cb39096c8'')"
    by (rule trans)
  then have c: "str_of (hex (sha256 ([0x66, 0x6f, 0x6f]
                @ [0x61, 0x62, 0x61, 0x64, 0x73, 0x65, 0x63, 0x72, 0x65, 0x74])))
       = str_of ''72a79a0f21b20b9c7d0a117addc0d917bcda3065c9c8329aea77b11cb39096c8''"
    by (simp only: sum.inject)
  from ne encode_utf8_foo encode_utf8_abadsecret a c show ?thesis
    by (intro conjI)
qed

text \<open>
  A lone surrogate in either argument: both are non-empty, and the call raises
  \<open>UnicodeEncodeError\<close> instead of returning a digest.
\<close>

theorem generate_hash_surrogate_counterexample:
  "generate_hash empty_environ [0xD800] (Some (str_of ''abadsecret'')) = Inl UnicodeEncodeError
   \<and> generate_hash empty_environ (str_of ''foo'') (Some [0xD800]) = Inl UnicodeEncodeError"
  by (simp add: generate_hash_def utf8_code_point_def str_of_def)

section \<open>Properties of the \<open>de-identify\<close> command\<close>

lemma set_unique: "set (unique xs) = set xs"
  by (simp add: unique_def)

lemma getitem_absent:
  assumes "c \<in> set cols" and "c \<notin> set (df_columns df)"
  shows "getitem df cols =
           Inl (KeyError
                  (if length (filter (\<lambda>c. c \<notin> set (df_columns df)) cols) = length cols
                   then cols else unique (filter (\<lambda>c. c \<notin> set (df_columns df)) cols)))"
proof -
  from assms have "c \<in> set (filter (\<lambda>c. c \<notin> set (df_columns df)) cols)"
    by simp
  then have "filter (\<lambda>c. c \<notin> set (df_columns df)) cols \<noteq> []"
    by (metis empty_iff list.set(1))
  then show ?thesis
    by (simp add: getitem_def Let_def)
qed










text \<open>
  C8. When a requested column is missing from the input, \<open>extract_fields_from_input\<close>,
  and with it the command, ends with a \<open>KeyError\<close> that names the requested columns the
  input lacks, the missing one among them, and the one line it logged lists the columns
  the input has. The error names every requested column when the input has none of
  them, and otherwise each missing column once.
\<close>

theorem missing_field_is_named:
  assumes "c \<in> set cols" and "c \<notin> set (df_columns df)"
  shows "\<exists>missing.
           extract_fields_from_input df cols
             = ([LogError (KeyError missing) (df_columns df)], Inl (KeyError missing))
           \<and> de_identify environ cols df drop_input_columns
             = ([LogError (KeyError missing) (df_columns df)], Inl (KeyError missing))
           \<and> c \<in> set missing
           \<and> set missing = {c \<in> set cols. c \<notin> set (df_columns df)}
           \<and> missing =
               (if length (filter (\<lambda>c. c \<notin> set (df_columns df)) cols) = length cols
                then cols else unique (filter (\<lambda>c. c \<notin> set (df_columns df)) cols))"
proof -
  let ?absent = "filter (\<lambda>c. c \<notin> set (df_columns df)) cols"
  define missing where "missing = (if length ?absent = length cols then cols else unique ?absent)"
  have all: "?absent = cols" if len: "length ?absent = length cols"
  proof -
    have "x \<notin> set (df_columns df)" if "x \<in> set cols" for x
    proof (rule ccontr)
      assume "\<not> x \<notin> set (df_columns df)"
      with that have "length ?absent < length cols"
        by (intro length_filter_less) simp_all
      with len show False by simp
    qed
    then show ?thesis by (intro filter_True) simp
  qed
  have names: "set missing = {c \<in> set cols. c \<notin> set (df_columns df)}"
  proof (cases "length ?absent = length cols")
    case True
    then have "missing = ?absent"
      using all by (simp add: missing_def)
    then show ?thesis by simp
  next
    case False
    then have "missing = unique ?absent"
      by (simp add: missing_def)
    then show ?thesis by (simp add: set_unique)
  qed
  with assms have c: "c \<in> set missing"
    by simp
  have get: "getitem df cols = Inl (KeyError missing)"
    unfolding missing_def by (rule getitem_absent [OF assms])
  then have ex: "extract_fields_from_input df cols
             = ([LogError (KeyError missing) (df_columns df)], Inl (KeyError missing))"
    by (simp add: extract_fields_from_input_def)
  then have run: "de_identify environ cols df drop_input_columns
             = ([LogError (KeyError missing) (df_columns df)], Inl (KeyError missing))"
    by (simp add: de_identify_def)
  from ex run c names missing_def show ?thesis
    by blast
qed

theorem missing_field_is_named_witness:
  "extract_fields_from_input
     \<lparr> df_columns = [str_of ''a''], df_rows = [[str_of ''x'']] \<rparr> [str_of ''a'', str_of ''b'']
   = ([LogError (KeyError [str_of ''b'']) [str_of ''a'']], Inl (KeyError [str_of ''b'']))
   \<and> de_identify Map.empty [str_of ''a'', str_of ''b'']
         \<lparr> df_columns = [str_of ''a''], df_rows = [[str_of ''x'']] \<rparr> False
   = ([LogError (KeyError [str_of ''b'']) [str_of ''a'']], Inl (KeyError [str_of ''b'']))"
proof -
  let ?df = "\<lparr> df_columns = [str_of ''a''], df_rows = [[str_of ''x'']] \<rparr>"
  let ?cols = "[str_of ''a'', str_of ''b'']"
  have b: "str_of ''b'' \<in> set ?cols" "str_of ''b'' \<notin> set (df_columns ?df)"
    by (simp_all add: str_of_def)
  from missing_field_is_named [OF b, where environ = Map.empty and drop_input_columns = False]
  obtain missing where
    ex: "extract_fields_from_input ?df ?cols
           = ([LogError (KeyError missing) (df_columns ?df)], Inl (KeyError missing))"
    and run: "de_identify Map.empty ?cols ?df False
           = ([LogError (KeyError missing) (df_columns ?df)], Inl (KeyError missing))"
    and missing: "missing =
               (if length (filter (\<lambda>c. c \<notin> set (df_columns ?df)) ?cols) = length ?cols
                then ?cols else unique (filter (\<lambda>c. c \<notin> set (df_columns ?df)) ?cols))"
    by blast
  have "missing = [str_of ''b'']"
    unfolding missing by (simp add: str_of_def unique_def)
  with ex run show ?thesis by simp
qed













section \<open>Properties of the datastore\<close>

lemma catch_permission_denied_Inr [simp]:
  "catch_permission_denied (s, Inr v) = (s, Inr v)"
  by (simp add: catch_permission_denied_def)

lemma catch_permission_denied_InsufficientPrivilege:
  "catch_permission_denied (s, Inl InsufficientPrivilege) = (s, Inl Forbidden)"
  by (simp add: catch_permission_denied_def)

lemma catch_permission_denied_other:
  "e \<noteq> InsufficientPrivilege \<Longrightarrow> catch_permission_denied (s, Inl e) = (s, Inl e)"
  by (cases e) (simp_all add: catch_permission_denied_def)

lemma make_identifier_set_eq:
  "make_identifier_set s name =
     (case encode_utf8 name of
        Inl e \<Rightarrow> (s, Inl UnicodeEncodeError)
      | Inr octets \<Rightarrow>
          if 0 \<in> set name then
            (s, Inl (ValueError ''A string literal cannot contain NUL (0x00) characters.''))
          else if \<not> may_insert_identifier_set s then (s, Inl Forbidden)
          else if setExists (session_db s) name then (s, Inr False)
          else (s \<lparr> session_db := session_db s
                     \<lparr> identifier_sets := identifier_sets (session_db s) @ [(name, None)] \<rparr> \<rparr>,
                Inr True))"
proof (cases "encode_utf8 name")
  case (Inl e)
  then have "e = UnicodeEncodeError" by (rule encode_utf8_error)
  with Inl show ?thesis
    by (simp add: make_identifier_set_def insert_identifier_set_def adapt_str_def
                  catch_permission_denied_def)
next
  case (Inr octets)
  then show ?thesis
    by (simp add: make_identifier_set_def insert_identifier_set_def adapt_str_def
                  catch_permission_denied_def setExists_def)
qed

text \<open>
  C10. For a name that the driver accepts (it has UTF-8 octets and holds no U+0000) and a
  session whose user may insert into \<open>warehouse.identifier_set\<close>, \<open>make_identifier_set\<close>
  creates a set that does not exist and returns \<open>True\<close>: the new row is the only change.
  For a set that exists it returns \<open>False\<close> and the database is as before. So a second
  call after a first that created the set returns \<open>False\<close>. For any other name or
  session the call raises \<open>UnicodeEncodeError\<close>, \<open>ValueError\<close> or \<open>Forbidden\<close> and the
  database is as before. In every case two calls leave the session as one call does.
\<close>

theorem make_identifier_set_idempotent:
  "((\<exists>octets. encode_utf8 name = Inr octets) \<and> 0 \<notin> set name \<and> may_insert_identifier_set s \<longrightarrow>
      (\<not> setExists (session_db s) name \<longrightarrow>
         make_identifier_set s name
           = (s \<lparr> session_db := session_db s
                   \<lparr> identifier_sets := identifier_sets (session_db s) @ [(name, None)] \<rparr> \<rparr>,
              Inr True)
         \<and> setExists (session_db (fst (make_identifier_set s name))) name
         \<and> make_identifier_set (fst (make_identifier_set s name)) name
             = (fst (make_identifier_set s name), Inr False))
      \<and> (setExists (session_db s) name \<longrightarrow> make_identifier_set s name = (s, Inr False)))
   \<and> (encode_utf8 name = Inl e \<longrightarrow> make_identifier_set s name = (s, Inl UnicodeEncodeError))
   \<and> ((\<exists>octets. encode_utf8 name = Inr octets) \<and> 0 \<in> set name \<longrightarrow>
        make_identifier_set s name
          = (s, Inl (ValueError ''A string literal cannot contain NUL (0x00) characters.'')))
   \<and> ((\<exists>octets. encode_utf8 name = Inr octets) \<and> 0 \<notin> set name
        \<and> \<not> may_insert_identifier_set s \<longrightarrow>
        make_identifier_set s name = (s, Inl Forbidden))
   \<and> fst (make_identifier_set (fst (make_identifier_set s name)) name)
       = fst (make_identifier_set s name)"
proof (cases "encode_utf8 name")
  case (Inl e')
  then show ?thesis
    by (simp add: make_identifier_set_eq)
next
  case (Inr octets)
  then show ?thesis
    by (simp add: make_identifier_set_eq) (simp add: setExists_def)
qed

theorem make_identifier_set_idempotent_witness:
  "\<not> setExists \<lparr> identifier_sets = [], identifiers = [] \<rparr> (str_of ''barcode'')
   \<and> make_identifier_set
         \<lparr> session_db = \<lparr> identifier_sets = [], identifiers = [] \<rparr>,
           may_insert_identifier_set = True \<rparr> (str_of ''barcode'')
       = (\<lparr> session_db = \<lparr> identifier_sets = [(str_of ''barcode'', None)], identifiers = [] \<rparr>,
            may_insert_identifier_set = True \<rparr>, Inr True)
   \<and> setExists \<lparr> identifier_sets = [(str_of ''barcode'', None)], identifiers = [] \<rparr>
         (str_of ''barcode'')
   \<and> make_identifier_set
         \<lparr> session_db = \<lparr> identifier_sets = [(str_of ''barcode'', None)], identifiers = [] \<rparr>,
           may_insert_identifier_set = True \<rparr> (str_of ''barcode'')
       = (\<lparr> session_db = \<lparr> identifier_sets = [(str_of ''barcode'', None)], identifiers = [] \<rparr>,
            may_insert_identifier_set = True \<rparr>, Inr False)"
proof -
  have name: "\<exists>octets. encode_utf8 (str_of ''barcode'') = Inr octets"
    "0 \<notin> set (str_of ''barcode'')"
    by (simp_all add: str_of_def utf8_code_point_def)
  from name
       make_identifier_set_idempotent
          [of "str_of ''barcode''"
              "\<lparr> session_db = \<lparr> identifier_sets = [], identifiers = [] \<rparr>,
                 may_insert_identifier_set = True \<rparr>"]
       make_identifier_set_idempotent
          [of "str_of ''barcode''"
              "\<lparr> session_db = \<lparr> identifier_sets = [(str_of ''barcode'', None)],
                                identifiers = [] \<rparr>,
                 may_insert_identifier_set = True \<rparr>"]
  show ?thesis
    by (simp add: setExists_def)
qed

text \<open>
  A name with U+0000 that names no set, in a session that may insert: the driver raises
  \<open>ValueError\<close> and nothing is created. And an acceptable name in a session whose user
  may not insert: \<open>Forbidden\<close>, and nothing is created.
\<close>

theorem make_identifier_set_refused_counterexample:
  "\<not> setExists \<lparr> identifier_sets = [], identifiers = [] \<rparr> [0]
   \<and> make_identifier_set
         \<lparr> session_db = \<lparr> identifier_sets = [], identifiers = [] \<rparr>,
           may_insert_identifier_set = True \<rparr> [0]
       = (\<lparr> session_db = \<lparr> identifier_sets = [], identifiers = [] \<rparr>,
            may_insert_identifier_set = True \<rparr>,
          Inl (ValueError ''A string literal cannot contain NUL (0x00) characters.''))
   \<and> make_identifier_set
         \<lparr> session_db = \<lparr> identifier_sets = [], identifiers = [] \<rparr>,
           may_insert_identifier_set = False \<rparr> (str_of ''barcode'')
       = (\<lparr> session_db = \<lparr> identifier_sets = [], identifiers = [] \<rparr>,
            may_insert_identifier_set = False \<rparr>, Inl Forbidden)"
  by (simp add: make_identifier_set_def insert_identifier_set_def adapt_str_def
                catch_permission_denied_def setExists_def utf8_code_point_def str_of_def)

text \<open>
  C3. Minting in a set that does not exist fails before any candidate is drawn: the
  minter raises \<open>IdentifierSetNotFoundError\<close>, which \<open>mint_identifiers\<close> raises again as
  \<open>NotFound\<close>; no insert was attempted and the database is as before.
\<close>

theorem mint_unknown_set:
  "\<not> setExists db name \<Longrightarrow>
     mint setExists insertIdentifier max_failures candidate db name n
       = ((db, 0), Inl (IdentifierSetNotFoundError name))
     \<and> mint_identifiers max_failures candidate db name n
       = ((db, 0), Inl (NotFound (IdentifierSetNotFoundError name)))"
  by (simp add: mint_def mint_identifiers_def catch_permission_denied_def)

theorem mint_unknown_set_witness:
  "\<not> setExists \<lparr> identifier_sets = [(str_of ''a'', None)], identifiers = [] \<rparr> (str_of ''b'')
   \<and> mint_identifiers 10 (\<lambda>i. [i]) \<lparr> identifier_sets = [(str_of ''a'', None)], identifiers = [] \<rparr>
         (str_of ''b'') 3
       = ((\<lparr> identifier_sets = [(str_of ''a'', None)], identifiers = [] \<rparr>, 0),
          Inl (NotFound (IdentifierSetNotFoundError (str_of ''b''))))"
  using mint_unknown_set [of "\<lparr> identifier_sets = [(str_of ''a'', None)], identifiers = [] \<rparr>"
                             "str_of ''b''" 10 "\<lambda>i. [i]" 3]
  by (simp add: setExists_def str_of_def)

subsection \<open>The minter\<close>

declare mint_loop.simps [simp del]

lemma mint_loop_always_collides:
  "f \<le> m \<Longrightarrow> length minted < n \<Longrightarrow>
     mint_loop always_collides m c name n st d f minted
       = ((st, d + (m - f)), Inl (TooManyFailuresError (length minted)))"
proof (induction "m - f" arbitrary: f d)
  case 0
  then show ?case
    by (subst mint_loop.simps) simp
next
  case (Suc k)
  then have "mint_loop always_collides m c name n st d f minted
               = mint_loop always_collides m c name n st (Suc d) (Suc f) minted"
    by (subst mint_loop.simps) (simp add: always_collides_def)
  also have "\<dots> = ((st, Suc d + (m - Suc f)), Inl (TooManyFailuresError (length minted)))"
    using Suc by (intro Suc.hyps(1)) simp_all
  finally show ?case using Suc by simp
qed

lemma insertIdentifier_eq:
  "setExists db name \<Longrightarrow>
     insertIdentifier db name v =
       (if v \<in> snd ` set (identifiers db) then Inr (db, False)
        else Inr (db \<lparr> identifiers := identifiers db @ [(name, v)] \<rparr>, True))"
  by (simp add: insertIdentifier_def)

lemma mint_loop_database_step:
  "setExists db name \<Longrightarrow>
     mint_loop insertIdentifier m c name n db d f minted =
       (if n \<le> length minted then ((db, d), Inr minted)
        else if m \<le> f then ((db, d), Inl (TooManyFailuresError (length minted)))
        else if c d \<in> snd ` set (identifiers db) then
          mint_loop insertIdentifier m c name n db (Suc d) (Suc f) minted
        else
          mint_loop insertIdentifier m c name n
            (db \<lparr> identifiers := identifiers db @ [(name, c d)] \<rparr>) (Suc d) 0 (minted @ [c d]))"
  by (subst mint_loop.simps) (simp add: insertIdentifier_eq)

lemma minted_by_nil: "minted_by c name db d db d []"
  by (simp add: minted_by_def)

lemma minted_by_skip:
  "minted_by c name db (Suc d) db' d' js \<Longrightarrow> minted_by c name db d db' d' js"
  by (auto simp: minted_by_def)

lemma minted_by_cons:
  assumes "c d \<notin> snd ` set (identifiers db)"
    and "minted_by c name (db \<lparr> identifiers := identifiers db @ [(name, c d)] \<rparr>) (Suc d) db' d' js"
  shows "minted_by c name db d db' d' (d # js)"
proof -
  from assms(2) have js: "set js \<subseteq> {Suc d..<d'}" and le: "Suc d \<le> d'"
    and new: "set (map c js) \<inter> snd ` set (identifiers db @ [(name, c d)]) = {}"
    by (simp_all add: minted_by_def)
  from new have "c d \<notin> set (map c js)"
    by auto
  moreover from new have "set (map c js) \<inter> snd ` set (identifiers db) = {}"
    by auto
  moreover from js have "\<forall>j \<in> set js. d < j"
    by auto
  ultimately show ?thesis
    using assms js le by (auto simp: minted_by_def)
qed

lemma setExists_after_insert:
  "setExists db name \<Longrightarrow> setExists (db \<lparr> identifiers := ids \<rparr>) name"
  by (simp add: setExists_def)

lemma mint_loop_database:
  assumes "ins = insertIdentifier" and "setExists db name"
    and "mint_loop ins m c name n db d f minted = ((db', d'), res)"
  shows "\<exists>js. minted_by c name db d db' d' js
           \<and> (res = Inr (minted @ map c js) \<and> n \<le> length minted + length js
                \<and> (length minted \<le> n \<longrightarrow> length minted + length js = n)
               \<or> res = Inl (TooManyFailuresError (length minted + length js))
                  \<and> length minted + length js < n)"
  using assms
proof (induction ins m c name n db d f minted arbitrary: db' d' res rule: mint_loop.induct)
  case (1 ins m c name n db d f minted)
  note ins = \<open>ins = insertIdentifier\<close>
  note unfold = mint_loop_database_step [OF "1.prems"(2), of m c n d f minted]
  note run = "1.prems"(3) [unfolded ins unfold]
  show ?case
  proof (cases "n \<le> length minted")
    case True
    with run have "db' = db" "d' = d" "res = Inr minted" by simp_all
    with True show ?thesis
      using minted_by_nil [of c name db d] by (intro exI [of _ "[]"]) simp
  next
    case more: False
    show ?thesis
    proof (cases "m \<le> f")
      case True
      with more run have "db' = db" "d' = d" "res = Inl (TooManyFailuresError (length minted))"
        by simp_all
      with more show ?thesis
        using minted_by_nil [of c name db d] by (intro exI [of _ "[]"]) simp
    next
      case tries: False
      show ?thesis
      proof (cases "c d \<in> snd ` set (identifiers db)")
        case True
        then have step: "ins db name (c d) = Inr (db, False)"
          using "1.prems"(2) by (simp add: ins insertIdentifier_eq)
        from True more tries run
        have "mint_loop ins m c name n db (Suc d) (Suc f) minted = ((db', d'), res)"
          by (simp add: ins)
        from "1.IH"(2) [OF more tries step refl _ ins "1.prems"(2) this]
        obtain js where "minted_by c name db (Suc d) db' d' js"
          and "res = Inr (minted @ map c js) \<and> n \<le> length minted + length js
                \<and> (length minted \<le> n \<longrightarrow> length minted + length js = n)
               \<or> res = Inl (TooManyFailuresError (length minted + length js))
                  \<and> length minted + length js < n"
          by auto
        then show ?thesis
          using minted_by_skip by blast
      next
        case False
        let ?db = "db \<lparr> identifiers := identifiers db @ [(name, c d)] \<rparr>"
        from False have step: "ins db name (c d) = Inr (?db, True)"
          using "1.prems"(2) by (simp add: ins insertIdentifier_eq)
        have ex: "setExists ?db name"
          using "1.prems"(2) by (rule setExists_after_insert)
        from False more tries run
        have "mint_loop ins m c name n ?db (Suc d) 0 (minted @ [c d]) = ((db', d'), res)"
          by (simp add: ins)
        from "1.IH"(1) [OF more tries step refl _ ins ex this]
        obtain js where by': "minted_by c name ?db (Suc d) db' d' js"
          and res: "res = Inr ((minted @ [c d]) @ map c js)
                      \<and> n \<le> length (minted @ [c d]) + length js
                      \<and> (length (minted @ [c d]) \<le> n
                            \<longrightarrow> length (minted @ [c d]) + length js = n)
               \<or> res = Inl (TooManyFailuresError (length (minted @ [c d]) + length js))
                  \<and> length (minted @ [c d]) + length js < n"
          by auto
        from False by' have "minted_by c name db d db' d' (d # js)"
          by (rule minted_by_cons)
        moreover from res more
        have "res = Inr (minted @ map c (d # js)) \<and> n \<le> length minted + length (d # js)
                \<and> (length minted \<le> n \<longrightarrow> length minted + length (d # js) = n)
               \<or> res = Inl (TooManyFailuresError (length minted + length (d # js)))
                  \<and> length minted + length (d # js) < n"
          by auto
        ultimately show ?thesis by blast
      qed
    qed
  qed
qed

lemma mint_loop_all_collide:
  assumes "setExists db name" and "\<forall>i. c i \<in> snd ` set (identifiers db)"
  shows "f \<le> m \<Longrightarrow> length minted < n \<Longrightarrow>
     mint_loop insertIdentifier m c name n db d f minted
       = ((db, d + (m - f)), Inl (TooManyFailuresError (length minted)))"
proof (induction "m - f" arbitrary: f d)
  case 0
  then show ?case
    by (simp add: mint_loop_database_step [OF assms(1)])
next
  case (Suc k)
  have nle: "\<not> m \<le> f"
    using Suc.hyps(2) by arith
  have "mint_loop insertIdentifier m c name n db d f minted
          = mint_loop insertIdentifier m c name n db (Suc d) (Suc f) minted"
    using nle Suc.prems assms(2)
    by (simp add: mint_loop_database_step [OF assms(1), of m c n d f minted])
  also have "\<dots> = ((db, Suc d + (m - Suc f)), Inl (TooManyFailuresError (length minted)))"
    using Suc by (intro Suc.hyps(1)) simp_all
  finally show ?case using Suc by simp
qed

lemma mint_loop_fresh:
  assumes "0 < m" and "inj c"
  shows "setExists db name \<Longrightarrow> \<forall>i \<ge> d. c i \<notin> snd ` set (identifiers db) \<Longrightarrow>
     mint_loop insertIdentifier m c name n db d 0 minted
       = ((db \<lparr> identifiers := identifiers db
                   @ map (\<lambda>j. (name, c j)) [d..<d + (n - length minted)] \<rparr>,
           d + (n - length minted)),
          Inr (minted @ map c [d..<d + (n - length minted)]))"
proof (induction "n - length minted" arbitrary: db d minted)
  case 0
  then show ?case
    by (simp add: mint_loop_database_step [of db name m c n d 0 minted])
next
  case (Suc k)
  let ?db = "db \<lparr> identifiers := identifiers db @ [(name, c d)] \<rparr>"
  have ex: "setExists ?db name"
    using Suc.prems(1) by (rule setExists_after_insert)
  have fresh: "\<forall>i \<ge> Suc d. c i \<notin> snd ` set (identifiers ?db)"
  proof (intro allI impI)
    fix i assume "Suc d \<le> i"
    then have "c i \<noteq> c d" "c i \<notin> snd ` set (identifiers db)"
      using assms(2) Suc.prems(2) by (auto dest: injD)
    then show "c i \<notin> snd ` set (identifiers ?db)"
      by auto
  qed
  have k: "k = n - length (minted @ [c d])"
    using Suc.hyps(2) by simp
  have nk: "n - length minted = Suc k"
    using Suc.hyps(2) by simp
  have more: "\<not> n \<le> length minted"
    using Suc.hyps(2) by arith
  have upt: "[d..<Suc (d + k)] = d # [Suc d..<Suc (d + k)]"
    by (rule upt_conv_Cons) simp
  have "mint_loop insertIdentifier m c name n db d 0 minted
          = mint_loop insertIdentifier m c name n ?db (Suc d) 0 (minted @ [c d])"
    using more Suc.prems(2) assms(1)
    by (simp add: mint_loop_database_step [OF Suc.prems(1), of m c n d 0 minted])
  also have "\<dots> = ((?db \<lparr> identifiers := identifiers ?db
                             @ map (\<lambda>j. (name, c j)) [Suc d..<Suc d + k] \<rparr>,
                       Suc d + k),
                      Inr ((minted @ [c d]) @ map c [Suc d..<Suc d + k]))"
    using Suc.hyps(1) [OF k ex fresh] k by simp
  finally show ?case
    unfolding nk by (simp add: upt del: upt_Suc)
qed

lemma mint_database:
  assumes "setExists db name"
    and "mint setExists insertIdentifier m c db name n = ((db', d'), res)"
  shows "\<exists>js. minted_by c name db 0 db' d' js
           \<and> (res = Inr (map c js) \<and> length js = nat n
               \<or> res = Inl (TooManyFailuresError (length js)) \<and> length js < nat n)"
  using mint_loop_database [OF refl assms(1), of m c "nat n" 0 0 "[]" db' d' res] assms
  by (auto simp: mint_def)

lemma mint_identifiers_Inr:
  "mint setExists insertIdentifier m c db name n = (s, Inr vs) \<Longrightarrow>
     mint_identifiers m c db name n = (s, Inr vs)"
  by (simp add: mint_identifiers_def)

lemma mint_identifiers_TooManyFailures:
  "mint setExists insertIdentifier m c db name n = (s, Inl (TooManyFailuresError k)) \<Longrightarrow>
     mint_identifiers m c db name n = (s, Inl (ServiceUnavailable (TooManyFailuresError k)))"
  by (simp add: mint_identifiers_def catch_permission_denied_def)

text \<open>
  C4. Against the always-collision stub, minting one identifier makes exactly
  \<open>max_failures\<close> insert attempts and then fails with \<open>TooManyFailuresError\<close>, none minted.
  The database behaves so when every candidate drawn is a value it already holds;
  \<open>mint_identifiers\<close> then raises \<open>ServiceUnavailable\<close> with that error. Whenever the
  minter fails with \<open>TooManyFailuresError k\<close>, the \<open>k\<close> identifiers it had minted are rows
  of the database it leaves.
\<close>

theorem mint_gives_up_at_bound:
  "mint (\<lambda>st s. True) always_collides max_failures candidate st setName 1
     = ((st, max_failures), Inl (TooManyFailuresError 0))
   \<and> (setExists db name \<and> (\<forall>i. candidate i \<in> snd ` set (identifiers db)) \<longrightarrow>
        mint setExists insertIdentifier max_failures candidate db name 1
          = ((db, max_failures), Inl (TooManyFailuresError 0))
        \<and> mint_identifiers max_failures candidate db name 1
          = ((db, max_failures), Inl (ServiceUnavailable (TooManyFailuresError 0))))
   \<and> (mint setExists insertIdentifier max_failures candidate db name n
          = ((db', draws), Inl (TooManyFailuresError k)) \<longrightarrow>
        (\<exists>vs. length vs = k \<and> distinct vs
              \<and> identifiers db' = identifiers db @ map (Pair name) vs)
        \<and> mint_identifiers max_failures candidate db name n
          = ((db', draws), Inl (ServiceUnavailable (TooManyFailuresError k))))"
proof (intro conjI impI)
  show "mint (\<lambda>st s. True) always_collides max_failures candidate st setName 1
          = ((st, max_failures), Inl (TooManyFailuresError 0))"
    using mint_loop_always_collides [of 0 max_failures "[]" 1 candidate setName st 0]
    by (simp add: mint_def)
next
  assume a: "setExists db name \<and> (\<forall>i. candidate i \<in> snd ` set (identifiers db))"
  then show m: "mint setExists insertIdentifier max_failures candidate db name 1
          = ((db, max_failures), Inl (TooManyFailuresError 0))"
    using mint_loop_all_collide [of db name candidate 0 max_failures "[]" 1 0]
    by (simp add: mint_def)
  then show "mint_identifiers max_failures candidate db name 1
          = ((db, max_failures), Inl (ServiceUnavailable (TooManyFailuresError 0)))"
    by (rule mint_identifiers_TooManyFailures)
next
  assume run: "mint setExists insertIdentifier max_failures candidate db name n
          = ((db', draws), Inl (TooManyFailuresError k))"
  then have ex: "setExists db name"
    by (auto simp: mint_def split: if_splits)
  from mint_database [OF ex run] obtain js where
    "minted_by candidate name db 0 db' draws js" and "length js = k"
    by auto
  then have "length (map candidate js) = k \<and> distinct (map candidate js)
              \<and> identifiers db' = identifiers db @ map (Pair name) (map candidate js)"
    by (simp add: minted_by_def comp_def)
  then show "\<exists>vs. length vs = k \<and> distinct vs
              \<and> identifiers db' = identifiers db @ map (Pair name) vs"
    by blast
  from run show "mint_identifiers max_failures candidate db name n
          = ((db', draws), Inl (ServiceUnavailable (TooManyFailuresError k)))"
    by (rule mint_identifiers_TooManyFailures)
qed

theorem mint_gives_up_at_bound_witness:
  "mint_identifiers 10 (constant_source (str_of ''x''))
     \<lparr> identifier_sets = [(str_of ''s'', None)], identifiers = [(str_of ''s'', str_of ''x'')] \<rparr>
     (str_of ''s'') 1
   = ((\<lparr> identifier_sets = [(str_of ''s'', None)],
          identifiers = [(str_of ''s'', str_of ''x'')] \<rparr>, 10),
      Inl (ServiceUnavailable (TooManyFailuresError 0)))
   \<and> (\<exists>vs. length vs = 0
         \<and> [(str_of ''s'', str_of ''x'')] = [(str_of ''s'', str_of ''x'')] @ map (Pair (str_of ''s'')) vs)"
  using mint_gives_up_at_bound
          [of 10 "constant_source (str_of ''x'')" "0::nat" "[]"
              "\<lparr> identifier_sets = [(str_of ''s'', None)],
                 identifiers = [(str_of ''s'', str_of ''x'')] \<rparr>"
              "str_of ''s''" 1
              "\<lparr> identifier_sets = [(str_of ''s'', None)],
                 identifiers = [(str_of ''s'', str_of ''x'')] \<rparr>" 10 0]
  by (simp add: setExists_def constant_source_def)

text \<open>
  C2. In an existing set the minter either returns or fails with
  \<open>TooManyFailuresError\<close>, having minted fewer than \<open>n\<close>. When it returns, it returns \<open>n\<close>
  values (none for a negative \<open>n\<close>): they are pairwise distinct, none was in the database
  before, they are candidates in the order of their draws, and the database has one new
  row for each; \<open>mint_identifiers\<close> returns the same. It does return when the bound is
  positive and the source draws pairwise distinct values that the database does not
  hold: then every draw is accepted.
\<close>

theorem mint_returns_new_distinct_values:
  "(setExists db name
      \<and> mint setExists insertIdentifier max_failures candidate db name n
          = ((db', draws), Inr vs) \<longrightarrow>
      length vs = nat n \<and> distinct vs \<and> set vs \<inter> snd ` set (identifiers db) = {}
      \<and> (\<exists>js. vs = map candidate js \<and> sorted_wrt (<) js \<and> set js \<subseteq> {0..<draws})
      \<and> identifiers db' = identifiers db @ map (Pair name) vs
      \<and> mint_identifiers max_failures candidate db name n = ((db', draws), Inr vs))
   \<and> (setExists db name \<longrightarrow>
        (\<exists>st vs. mint setExists insertIdentifier max_failures candidate db name n
                    = (st, Inr vs))
        \<or> (\<exists>st k. mint setExists insertIdentifier max_failures candidate db name n
                      = (st, Inl (TooManyFailuresError k)) \<and> k < nat n))
   \<and> (setExists db name \<and> 0 < max_failures \<and> inj candidate
        \<and> range candidate \<inter> snd ` set (identifiers db) = {} \<longrightarrow>
        (\<exists>db'. mint setExists insertIdentifier max_failures candidate db name n
                  = ((db', nat n), Inr (map candidate [0..<nat n]))))"
proof (intro conjI impI)
  assume a: "setExists db name
      \<and> mint setExists insertIdentifier max_failures candidate db name n
          = ((db', draws), Inr vs)"
  then obtain js where by': "minted_by candidate name db 0 db' draws js"
    and vs: "vs = map candidate js" and len: "length js = nat n"
    using mint_database [of db name max_failures candidate n db' draws "Inr vs"] by auto
  from by' vs len show "length vs = nat n" "distinct vs"
    "set vs \<inter> snd ` set (identifiers db) = {}"
    "identifiers db' = identifiers db @ map (Pair name) vs"
    by (simp_all add: minted_by_def comp_def)
  from by' vs show "\<exists>js. vs = map candidate js \<and> sorted_wrt (<) js \<and> set js \<subseteq> {0..<draws}"
    by (auto simp: minted_by_def)
  from a show "mint_identifiers max_failures candidate db name n = ((db', draws), Inr vs)"
    by (simp add: mint_identifiers_Inr)
next
  assume ex: "setExists db name"
  obtain db' d' res where run:
    "mint setExists insertIdentifier max_failures candidate db name n = ((db', d'), res)"
    by (metis surj_pair)
  from mint_database [OF ex run] run
  show "(\<exists>st vs. mint setExists insertIdentifier max_failures candidate db name n
                    = (st, Inr vs))
        \<or> (\<exists>st k. mint setExists insertIdentifier max_failures candidate db name n
                      = (st, Inl (TooManyFailuresError k)) \<and> k < nat n)"
    by auto
next
  assume a: "setExists db name \<and> 0 < max_failures \<and> inj candidate
        \<and> range candidate \<inter> snd ` set (identifiers db) = {}"
  then have "\<forall>i \<ge> 0. candidate i \<notin> snd ` set (identifiers db)"
    by auto
  with a show "\<exists>db'. mint setExists insertIdentifier max_failures candidate db name n
                  = ((db', nat n), Inr (map candidate [0..<nat n]))"
    using mint_loop_fresh [of max_failures candidate db name 0 "nat n" "[]"]
    by (simp add: mint_def)
qed

lemma inj_counting_source: "inj counting_source"
  by (simp add: inj_def counting_source_def)

text \<open>
  The failure is real: with a bound of ten and a source that keeps drawing the one value
  the set already holds, minting one identifier makes ten attempts and returns nothing.
\<close>

theorem mint_collisions_counterexample:
  "setExists \<lparr> identifier_sets = [(str_of ''s'', None)],
               identifiers = [(str_of ''s'', str_of ''x'')] \<rparr> (str_of ''s'')
   \<and> mint setExists insertIdentifier 10 (constant_source (str_of ''x''))
        \<lparr> identifier_sets = [(str_of ''s'', None)],
          identifiers = [(str_of ''s'', str_of ''x'')] \<rparr> (str_of ''s'') 1
     = ((\<lparr> identifier_sets = [(str_of ''s'', None)],
            identifiers = [(str_of ''s'', str_of ''x'')] \<rparr>, 10),
        Inl (TooManyFailuresError 0))
   \<and> mint_identifiers 10 (constant_source (str_of ''x''))
        \<lparr> identifier_sets = [(str_of ''s'', None)],
          identifiers = [(str_of ''s'', str_of ''x'')] \<rparr> (str_of ''s'') 1
     = ((\<lparr> identifier_sets = [(str_of ''s'', None)],
            identifiers = [(str_of ''s'', str_of ''x'')] \<rparr>, 10),
        Inl (ServiceUnavailable (TooManyFailuresError 0)))"
proof -
  let ?db = "\<lparr> identifier_sets = [(str_of ''s'', None)],
               identifiers = [(str_of ''s'', str_of ''x'')] \<rparr>"
  have ex: "setExists ?db (str_of ''s'')"
    by (simp add: setExists_def)
  have "\<forall>i. constant_source (str_of ''x'') i \<in> snd ` set (identifiers ?db)"
    by (simp add: constant_source_def)
  with ex have run: "mint setExists insertIdentifier 10 (constant_source (str_of ''x''))
                  ?db (str_of ''s'') 1 = ((?db, 10), Inl (TooManyFailuresError 0))"
    using mint_loop_all_collide [of ?db "str_of ''s''" "constant_source (str_of ''x'')"
                                    0 10 "[]" 1 0]
    by (simp add: mint_def)
  from ex run mint_identifiers_TooManyFailures [OF run] show ?thesis
    by simp
qed

text \<open>
  Two runs of the theorem: one where the second draw collides and is skipped, one on an
  empty set, where every draw is accepted.
\<close>

theorem mint_returns_new_distinct_values_witness:
  "mint setExists insertIdentifier 10 counting_source
     \<lparr> identifier_sets = [(str_of ''s'', None)], identifiers = [(str_of ''s'', [1])] \<rparr>
     (str_of ''s'') 2
   = ((\<lparr> identifier_sets = [(str_of ''s'', None)],
          identifiers = [(str_of ''s'', [1]), (str_of ''s'', [0]), (str_of ''s'', [2])] \<rparr>, 3),
      Inr [[0], [2]])
   \<and> mint_identifiers 10 counting_source
        \<lparr> identifier_sets = [(str_of ''s'', None)], identifiers = [(str_of ''s'', [1])] \<rparr>
        (str_of ''s'') 2
     = ((\<lparr> identifier_sets = [(str_of ''s'', None)],
            identifiers = [(str_of ''s'', [1]), (str_of ''s'', [0]), (str_of ''s'', [2])] \<rparr>, 3),
        Inr [[0], [2]])
   \<and> (\<exists>db'. mint setExists insertIdentifier 10 counting_source
                \<lparr> identifier_sets = [(str_of ''s'', None)], identifiers = [] \<rparr> (str_of ''s'') 2
              = ((db', nat 2), Inr (map counting_source [0..<nat 2])))"
proof -
  let ?db = "\<lparr> identifier_sets = [(str_of ''s'', None)], identifiers = [(str_of ''s'', [1])] \<rparr>"
  let ?db' = "\<lparr> identifier_sets = [(str_of ''s'', None)],
                identifiers = [(str_of ''s'', [1]), (str_of ''s'', [0]), (str_of ''s'', [2])] \<rparr>"
  let ?empty = "\<lparr> identifier_sets = [(str_of ''s'', None)], identifiers = [] \<rparr>"
  have ex: "setExists ?db (str_of ''s'')" "setExists ?empty (str_of ''s'')"
    by (simp_all add: setExists_def)
  have run: "mint setExists insertIdentifier 10 counting_source ?db (str_of ''s'') 2
               = ((?db', 3), Inr [[0], [2]])"
    by (simp add: mint_def mint_loop.simps insertIdentifier_def setExists_def
                  counting_source_def)
  have fresh: "range counting_source \<inter> snd ` set (identifiers ?empty) = {}"
    by simp
  from mint_returns_new_distinct_values
         [of ?db "str_of ''s''" 10 counting_source 2 ?db' 3 "[[0], [2]]"] ex run
  have "mint_identifiers 10 counting_source ?db (str_of ''s'') 2 = ((?db', 3), Inr [[0], [2]])"
    by simp
  moreover
  from mint_returns_new_distinct_values [of ?empty "str_of ''s''" 10 counting_source 2]
       ex inj_counting_source fresh
  have "\<exists>db'. mint setExists insertIdentifier 10 counting_source ?empty (str_of ''s'') 2
              = ((db', nat 2), Inr (map counting_source [0..<nat 2]))"
    by simp
  ultimately show ?thesis using run by simp
qed

end
